theory Spec2Isabelle
  imports Complex_Main
begin

section \<open>IBM Model 4 (nltk/align/ibm4.py): the embedding\<close>

text \<open>
  Python floats are modelled as \<^typ>\<open>real\<close>: rounding, overflow and NaN are outside the
  model. Python exceptions are values of \<open>error + 'a\<close>, \<open>Inl\<close> carrying the error.
  A \<^verbatim>\<open>defaultdict\<close> whose leaves default to the floor is a total function: reading an
  absent key yields the default, and the key that the read inserts is not observable
  through later reads. The \<^verbatim>\<open>Counts\<close> dictionaries are iterated by the M step, so they
  are (nested) association lists in insertion order.
\<close>

subsection \<open>Errors and Python primitives\<close>

datatype error = KeyError | IndexError | ZeroDivisionError

definition ebind :: "error + 'a \<Rightarrow> ('a \<Rightarrow> error + 'b) \<Rightarrow> error + 'b" where
  "ebind m f = (case m of Inl e \<Rightarrow> Inl e | Inr x \<Rightarrow> f x)"

text \<open>\<^verbatim>\<open>xs[i]\<close> for a non-negative index: IndexError out of range.\<close>

definition list_get :: "'a list \<Rightarrow> nat \<Rightarrow> error + 'a" where
  "list_get xs i = (if i < length xs then Inr (xs ! i) else Inl IndexError)"

text \<open>\<^verbatim>\<open>d[k]\<close> on a plain \<^verbatim>\<open>dict\<close>: KeyError when the key is absent.\<close>

definition dict_get :: "('k \<times> 'v) list \<Rightarrow> 'k \<Rightarrow> error + 'v" where
  "dict_get d k = (case map_of d k of None \<Rightarrow> Inl KeyError | Some v \<Rightarrow> Inr v)"

text \<open>True division \<^verbatim>\<open>x / y\<close> (the module imports \<^verbatim>\<open>division\<close> from \<^verbatim>\<open>__future__\<close>).\<close>

definition py_div :: "real \<Rightarrow> real \<Rightarrow> error + real" where
  "py_div x y = (if y = 0 then Inl ZeroDivisionError else Inr (x / y))"

text \<open>\<^verbatim>\<open>pow(x, n)\<close> for a float base and an integer exponent: zero to a negative power raises.\<close>

definition py_pow :: "real \<Rightarrow> int \<Rightarrow> error + real" where
  "py_pow x n = (if x = 0 \<and> n < 0 then Inl ZeroDivisionError else Inr (power_int x n))"

text \<open>A \<^verbatim>\<open>for\<close> loop whose body may raise: the first error ends the loop.\<close>

primrec for_each :: "('a \<Rightarrow> 's \<Rightarrow> error + 's) \<Rightarrow> 'a list \<Rightarrow> 's \<Rightarrow> error + 's" where
  "for_each body [] s = Inr s"
| "for_each body (x # xs) s = ebind (body x s) (for_each body xs)"

subsection \<open>Sentences, alignment candidates, the model object\<close>

type_synonym word = string

text \<open>\<^verbatim>\<open>AlignedSent\<close>: \<^verbatim>\<open>words\<close> is the target sentence, \<^verbatim>\<open>mots\<close> the source sentence.\<close>

record aligned_sent =
  words :: "word list"
  mots :: "word list"

text \<open>
  \<^verbatim>\<open>AlignmentInfo\<close> (declared in nltk/align/ibm_model.py): \<^verbatim>\<open>alignment[j]\<close> is the source
  position of target position \<open>j\<close>, \<^verbatim>\<open>src_sentence\<close> starts with \<^verbatim>\<open>None\<close> (the NULL word),
  \<^verbatim>\<open>trg_sentence\<close> starts with an unused entry, \<^verbatim>\<open>cepts[i]\<close> is the tablet of source
  position \<open>i\<close>.
\<close>

record alignment_info =
  alignment :: "nat list"
  src_sentence :: "word option list"
  trg_sentence :: "word list"
  cepts :: "nat list list"

text \<open>
  The methods of \<^verbatim>\<open>AlignmentInfo\<close> live in nltk/align/ibm_model.py, which is not among the
  sources; each is modelled from what the spec says of it, as a total function of the
  candidate.
\<close>

text \<open>
  Modelled from the spec: the tablet of a source position is the ordered list of target
  positions aligned to it (none for a position the cept table does not have).
\<close>

definition tablet :: "alignment_info \<Rightarrow> nat \<Rightarrow> nat list" where
  "tablet a i = (if i < length (cepts a) then cepts a ! i else [])"

text \<open>Modelled from the spec: the fertility of a source position is the size of its tablet.\<close>

definition fertility_of_i :: "alignment_info \<Rightarrow> nat \<Rightarrow> nat" where
  "fertility_of_i a i = length (tablet a i)"

text \<open>Modelled from the spec: \<open>j\<close> is the head of its tablet when it is its first word.\<close>

definition is_head_word :: "alignment_info \<Rightarrow> nat \<Rightarrow> bool" where
  "is_head_word a j =
     (case tablet a (alignment a ! j) of [] \<Rightarrow> False | h # _ \<Rightarrow> h = j)"

text \<open>
  Modelled from the spec: the previous cept is the nearest earlier source position with
  nonzero fertility, or none if this is the first cept in the sentence. Position 0 is
  NULL and not a cept.
\<close>

definition previous_cept :: "alignment_info \<Rightarrow> nat \<Rightarrow> nat option" where
  "previous_cept a j =
     List.find (\<lambda>k. fertility_of_i a k \<noteq> 0) (rev [1..<alignment a ! j])"

text \<open>
  Modelled from the spec: the center of a cept is the ceiling of the mean of its tablet
  positions, and 0 when there is no previous cept.
\<close>

definition center_of_cept :: "alignment_info \<Rightarrow> nat option \<Rightarrow> int" where
  "center_of_cept a c =
     (case c of
        None \<Rightarrow> 0
      | Some i \<Rightarrow> \<lceil>real (sum_list (tablet a i)) / real (length (tablet a i))\<rceil>)"

text \<open>
  Modelled from the spec: the position that precedes \<open>j\<close> in a tablet; where there is none
  the value is 0.
\<close>

fun position_before :: "nat list \<Rightarrow> nat \<Rightarrow> nat" where
  "position_before (x # y # ys) j = (if y = j then x else position_before (y # ys) j)"
| "position_before _ j = 0"

text \<open>
  Modelled from the spec: the previous target position in the same tablet. The code asks
  for it for non-head members of a tablet only.
\<close>

definition previous_in_tablet :: "alignment_info \<Rightarrow> nat \<Rightarrow> nat" where
  "previous_in_tablet a j = position_before (tablet a (alignment a ! j)) j"

text \<open>
  The \<^verbatim>\<open>IBMModel4\<close> object. Word classes are integer ids; the head distortion table is
  keyed by \<^verbatim>\<open>None\<close> for the source class when there is no previous cept. The two class
  lookups are plain dictionaries.
\<close>

record model =
  translation_table :: "word \<Rightarrow> word option \<Rightarrow> real"
  alignment_table :: "nat \<Rightarrow> nat \<Rightarrow> nat \<Rightarrow> nat \<Rightarrow> real"
  fertility_table :: "nat \<Rightarrow> word option \<Rightarrow> real"
  p1 :: real
  head_distortion_table :: "int \<Rightarrow> int option \<Rightarrow> int \<Rightarrow> real"
  non_head_distortion_table :: "int \<Rightarrow> int \<Rightarrow> real"
  src_classes :: "(word \<times> int) list"
  trg_classes :: "(word \<times> int) list"

subsection \<open>\<^verbatim>\<open>prob_t_a_given_s\<close> and its nested functions\<close>

text \<open>
  \<^verbatim>\<open>IBMModel.MIN_PROB\<close> is a class constant of nltk/align/ibm_model.py, which is not among
  the sources: it is the parameter \<open>MIN_PROB\<close> of every function that reads it.
\<close>

text \<open>The local \<^verbatim>\<open>p0 = 1 - p1\<close> of \<^verbatim>\<open>null_generation_term\<close>.\<close>

definition p0 :: "model \<Rightarrow> real" where
  "p0 M = 1 - p1 M"

definition null_generation_term :: "real \<Rightarrow> model \<Rightarrow> alignment_info \<Rightarrow> error + real" where
  "null_generation_term MIN_PROB M a =
     (let p0 = p0 M;
          null_fertility = fertility_of_i a 0;
          m = int (length (trg_sentence a)) - 1
      in ebind (py_pow (p1 M) (int null_fertility)) (\<lambda>x.
         ebind (py_pow p0 (m - 2 * int null_fertility)) (\<lambda>y.
           let v = 1 * (x * y)
           in if v < MIN_PROB then Inr MIN_PROB
              else Inr (foldl (\<lambda>v i. v * (real_of_int (m - int null_fertility - int i + 1) / real i))
                         v [1..<null_fertility + 1]))))"

fun fertility_loop :: "real \<Rightarrow> model \<Rightarrow> alignment_info \<Rightarrow> nat list \<Rightarrow> real \<Rightarrow> real" where
  "fertility_loop MIN_PROB M a [] v = v"
| "fertility_loop MIN_PROB M a (i # is) v =
     (let fertility = fertility_of_i a i;
          v' = v * (fact fertility * fertility_table M fertility (src_sentence a ! i))
      in if v' < MIN_PROB then MIN_PROB else fertility_loop MIN_PROB M a is v')"

text \<open>The index \<open>i\<close> runs over \<^verbatim>\<open>range(1, len(src_sentence))\<close>, so \<^verbatim>\<open>src_sentence[i]\<close> is in range.\<close>

definition fertility_term :: "real \<Rightarrow> model \<Rightarrow> alignment_info \<Rightarrow> real" where
  "fertility_term MIN_PROB M a =
     fertility_loop MIN_PROB M a [1..<length (src_sentence a)] 1"

definition lexical_translation_term :: "model \<Rightarrow> alignment_info \<Rightarrow> nat \<Rightarrow> error + real" where
  "lexical_translation_term M a j =
     ebind (list_get (trg_sentence a) j) (\<lambda>t.
     ebind (list_get (alignment a) j) (\<lambda>i.
     ebind (list_get (src_sentence a) i) (\<lambda>s.
       Inr (translation_table M t s))))"

text \<open>\<^verbatim>\<open>src_classes[previous_s]\<close>: the NULL word \<^verbatim>\<open>None\<close> is no key of a word-class lookup.\<close>

definition src_class_of :: "(word \<times> int) list \<Rightarrow> word option \<Rightarrow> error + int" where
  "src_class_of classes s = (case s of None \<Rightarrow> Inl KeyError | Some w \<Rightarrow> dict_get classes w)"

definition distortion_term :: "model \<Rightarrow> alignment_info \<Rightarrow> nat \<Rightarrow> error + real" where
  "distortion_term M a j =
     ebind (list_get (trg_sentence a) j) (\<lambda>t.
     ebind (list_get (alignment a) j) (\<lambda>i.
       if i = 0 then Inr 1
       else if is_head_word a j then
         (let previous_cept = previous_cept a j
          in ebind (case previous_cept of
                      None \<Rightarrow> Inr None
                    | Some pc \<Rightarrow>
                        ebind (list_get (src_sentence a) pc) (\<lambda>previous_s.
                        ebind (src_class_of (src_classes M) previous_s) (\<lambda>c. Inr (Some c))))
               (\<lambda>src_class.
             ebind (dict_get (trg_classes M) t) (\<lambda>trg_class.
               let dj = int j - center_of_cept a previous_cept
               in Inr (head_distortion_table M dj src_class trg_class))))
       else
         (let previous_position = previous_in_tablet a j
          in ebind (dict_get (trg_classes M) t) (\<lambda>trg_class.
               let dj = int j - int previous_position
               in Inr (non_head_distortion_table M dj trg_class)))))"

text \<open>
  The loop over \<^verbatim>\<open>range(1, len(trg_sentence))\<close>, carrying the running product. An early
  \<^verbatim>\<open>return MIN_PROB\<close> ends the function, so it is the result of the loop.
\<close>

fun score_loop :: "real \<Rightarrow> model \<Rightarrow> alignment_info \<Rightarrow> nat list \<Rightarrow> real \<Rightarrow> error + real" where
  "score_loop MIN_PROB M a [] probability = Inr probability"
| "score_loop MIN_PROB M a (j # js) probability =
     ebind (lexical_translation_term M a j) (\<lambda>l.
       let probability = probability * l
       in if probability < MIN_PROB then Inr MIN_PROB
          else ebind (distortion_term M a j) (\<lambda>d.
            let probability = probability * d
            in if probability < MIN_PROB then Inr MIN_PROB
               else score_loop MIN_PROB M a js probability))"

definition prob_t_a_given_s :: "real \<Rightarrow> model \<Rightarrow> alignment_info \<Rightarrow> error + real" where
  "prob_t_a_given_s MIN_PROB M a =
     ebind (null_generation_term MIN_PROB M a) (\<lambda>n.
       let probability = 1 * n
       in if probability < MIN_PROB then Inr MIN_PROB
          else
            let probability = probability * fertility_term MIN_PROB M a
            in if probability < MIN_PROB then Inr MIN_PROB
               else score_loop MIN_PROB M a [1..<length (trg_sentence a)] probability)"

definition prob_of_alignments :: "real \<Rightarrow> model \<Rightarrow> alignment_info list \<Rightarrow> error + real" where
  "prob_of_alignments MIN_PROB M alignments =
     for_each (\<lambda>alignment_info probability.
                 ebind (prob_t_a_given_s MIN_PROB M alignment_info) (\<lambda>p. Inr (probability + p)))
       alignments 0"

subsection \<open>\<^verbatim>\<open>Counts\<close>\<close>

text \<open>
  Dictionaries that are iterated: association lists in insertion order. \<open>dict_set\<close> is
  \<^verbatim>\<open>d[k] = v\<close>, \<open>dd_get\<close> is \<^verbatim>\<open>d[k]\<close> on a \<^verbatim>\<open>defaultdict\<close> with the given default, and
  \<open>add1\<close>, \<open>add2\<close>, \<open>add3\<close> are \<^verbatim>\<open>d[k] += c\<close>, \<^verbatim>\<open>d[k1][k2] += c\<close> and
  \<^verbatim>\<open>d[k1][k2][k3] += c\<close> on \<^verbatim>\<open>defaultdict\<close>s whose leaves default to \<^verbatim>\<open>0.0\<close>.
\<close>

primrec dict_set :: "'k \<Rightarrow> 'v \<Rightarrow> ('k \<times> 'v) list \<Rightarrow> ('k \<times> 'v) list" where
  "dict_set k v [] = [(k, v)]"
| "dict_set k v (p # ps) = (if fst p = k then (k, v) # ps else p # dict_set k v ps)"

definition dd_get :: "('k \<times> 'v) list \<Rightarrow> 'v \<Rightarrow> 'k \<Rightarrow> 'v" where
  "dd_get d dflt k = (case map_of d k of None \<Rightarrow> dflt | Some v \<Rightarrow> v)"

definition add1 :: "('k \<times> real) list \<Rightarrow> 'k \<Rightarrow> real \<Rightarrow> ('k \<times> real) list" where
  "add1 d k c = dict_set k (dd_get d 0 k + c) d"

definition add2 ::
  "('k \<times> ('l \<times> real) list) list \<Rightarrow> 'k \<Rightarrow> 'l \<Rightarrow> real \<Rightarrow> ('k \<times> ('l \<times> real) list) list" where
  "add2 d k l c = dict_set k (add1 (dd_get d [] k) l c) d"

definition add3 ::
  "('j \<times> ('k \<times> ('l \<times> real) list) list) list \<Rightarrow> 'j \<Rightarrow> 'k \<Rightarrow> 'l \<Rightarrow> real
     \<Rightarrow> ('j \<times> ('k \<times> ('l \<times> real) list) list) list" where
  "add3 d j k l c = dict_set j (add2 (dd_get d [] j) k l c) d"

text \<open>
  The fields \<^verbatim>\<open>p0\<close>, \<^verbatim>\<open>p1\<close> and \<^verbatim>\<open>null\<close> of \<^verbatim>\<open>Counts\<close> are \<open>count_p0\<close>, \<open>count_p1\<close> and
  \<open>null_count\<close> here: \<open>p1\<close> is the model's field and \<open>null\<close> a list function of HOL.
\<close>

record counts =
  t_given_s :: "(word \<times> (word option \<times> real) list) list"
  any_t_given_s :: "(word option \<times> real) list"
  head_distortion :: "(int \<times> (int option \<times> (int \<times> real) list) list) list"
  head_distortion_for_any_dj :: "(int option \<times> (int \<times> real) list) list"
  non_head_distortion :: "(int \<times> (int \<times> real) list) list"
  non_head_distortion_for_any_dj :: "(int \<times> real) list"
  count_p0 :: real
  count_p1 :: real
  fertility :: "(nat \<times> (word option \<times> real) list) list"
  fertility_for_any_phi :: "(word option \<times> real) list"
  null_count :: int

text \<open>\<^verbatim>\<open>Counts()\<close>\<close>

definition Counts :: counts where
  "Counts =
     \<lparr>t_given_s = [], any_t_given_s = [], head_distortion = [],
      head_distortion_for_any_dj = [], non_head_distortion = [],
      non_head_distortion_for_any_dj = [], count_p0 = 0, count_p1 = 0, fertility = [],
      fertility_for_any_phi = [], null_count = 0\<rparr>"

definition update_lexical_translation ::
  "real \<Rightarrow> alignment_info \<Rightarrow> nat \<Rightarrow> counts \<Rightarrow> error + counts" where
  "update_lexical_translation count a j self =
     ebind (list_get (alignment a) j) (\<lambda>i.
     ebind (list_get (trg_sentence a) j) (\<lambda>t.
     ebind (list_get (src_sentence a) i) (\<lambda>s.
       Inr (self\<lparr>t_given_s := add2 (t_given_s self) t s count,
                 any_t_given_s := add1 (any_t_given_s self) s count\<rparr>))))"

definition update_distortion ::
  "real \<Rightarrow> alignment_info \<Rightarrow> nat \<Rightarrow> (word \<times> int) list \<Rightarrow> (word \<times> int) list \<Rightarrow> counts
     \<Rightarrow> error + counts" where
  "update_distortion count a j source_word_classes target_word_classes self =
     ebind (list_get (alignment a) j) (\<lambda>i.
     ebind (list_get (trg_sentence a) j) (\<lambda>t.
       if i = 0 then Inr (self\<lparr>null_count := null_count self + 1\<rparr>)
       else if is_head_word a j then
         (let previous_cept = previous_cept a j
          in ebind (case previous_cept of
                      Some pc \<Rightarrow>
                        ebind (list_get (src_sentence a) pc) (\<lambda>previous_src_word.
                        ebind (src_class_of source_word_classes previous_src_word) (\<lambda>c. Inr (Some c)))
                    | None \<Rightarrow> Inr None)
               (\<lambda>src_class.
             ebind (dict_get target_word_classes t) (\<lambda>trg_class.
               let dj = int j - center_of_cept a previous_cept
               in Inr (self\<lparr>head_distortion :=
                               add3 (head_distortion self) dj src_class trg_class count,
                             head_distortion_for_any_dj :=
                               add2 (head_distortion_for_any_dj self) src_class trg_class count\<rparr>))))
       else
         (let previous_j = previous_in_tablet a j
          in ebind (dict_get target_word_classes t) (\<lambda>trg_class.
               let dj = int j - int previous_j
               in Inr (self\<lparr>non_head_distortion :=
                               add2 (non_head_distortion self) dj trg_class count,
                             non_head_distortion_for_any_dj :=
                               add1 (non_head_distortion_for_any_dj self) trg_class count\<rparr>)))))"

definition update_null_generation :: "real \<Rightarrow> alignment_info \<Rightarrow> counts \<Rightarrow> counts" where
  "update_null_generation count a self =
     (let m = int (length (trg_sentence a)) - 1;
          self = self\<lparr>count_p1 := count_p1 self + real_of_int (null_count self) * count\<rparr>
      in self\<lparr>count_p0 := count_p0 self + real_of_int (m - 2 * null_count self) * count\<rparr>)"

text \<open>\<^verbatim>\<open>src_sentence[i]\<close> is in range by the loop's bounds; \<^verbatim>\<open>cepts[i]\<close> need not be.\<close>

definition update_fertility :: "real \<Rightarrow> alignment_info \<Rightarrow> counts \<Rightarrow> error + counts" where
  "update_fertility count a self =
     for_each (\<lambda>i self.
                 let s = src_sentence a ! i
                 in ebind (list_get (cepts a) i) (\<lambda>cept.
                      let fertility = length cept
                      in Inr (self\<lparr>fertility := add2 (counts.fertility self) fertility s count,
                                    fertility_for_any_phi :=
                                      add1 (fertility_for_any_phi self) s count\<rparr>)))
       [0..<length (src_sentence a)] self"

subsection \<open>Initialisation of the distortion tables\<close>

text \<open>
  Modelled from the spec: \<^verbatim>\<open>IBMModel.reset_probabilities\<close> is in nltk/align/ibm_model.py,
  which is not among the sources. The spec gives: every table entry defaults to the floor
  when absent, and the tables are replaced wholesale. What it does to \<^verbatim>\<open>p1\<close> is not said;
  \<^verbatim>\<open>train\<close> assigns \<^verbatim>\<open>p1\<close> anew before it is read again, so \<open>p1\<close> is left as it is here.
\<close>

definition IBMModel_reset_probabilities :: "real \<Rightarrow> model \<Rightarrow> model" where
  "IBMModel_reset_probabilities MIN_PROB self =
     self\<lparr>translation_table := (\<lambda>t s. MIN_PROB),
          alignment_table := (\<lambda>i j l m. MIN_PROB),
          fertility_table := (\<lambda>phi s. MIN_PROB)\<rparr>"

definition reset_probabilities :: "real \<Rightarrow> model \<Rightarrow> model" where
  "reset_probabilities MIN_PROB self =
     (IBMModel_reset_probabilities MIN_PROB self)
       \<lparr>head_distortion_table := (\<lambda>dj s_cls t_cls. MIN_PROB),
        non_head_distortion_table := (\<lambda>dj t_cls. MIN_PROB)\<rparr>"

text \<open>
  \<^verbatim>\<open>get_unique_word_classes\<close> returns a Python set; the order in which it is iterated is
  not fixed by the language, and the list here is one such order.
\<close>

definition get_unique_word_classes :: "(word \<times> int) list \<Rightarrow> int list" where
  "get_unique_word_classes word_classes_table = remdups (map snd word_classes_table)"

definition longest_target_sentence_length :: "aligned_sent list \<Rightarrow> nat" where
  "longest_target_sentence_length sentence_aligned_corpus =
     foldl (\<lambda>max_m aligned_sentence.
              let m = length (words aligned_sentence)
              in if m > max_m then m else max_m)
       0 sentence_aligned_corpus"

definition initial_prob :: "real \<Rightarrow> nat \<Rightarrow> real" where
  "initial_prob MIN_PROB max_m =
     (if max_m \<le> 1 then MIN_PROB else 1 / real_of_int (2 * (int max_m - 1)))"

text \<open>\<^verbatim>\<open>warnings.warn\<close> is recorded in the result; it does not raise.\<close>

datatype warning = Too_long nat

definition uniform_warnings :: "real \<Rightarrow> nat \<Rightarrow> warning list" where
  "uniform_warnings MIN_PROB max_m =
     (if initial_prob MIN_PROB max_m < MIN_PROB then [Too_long max_m] else [])"

definition set_head :: "int \<Rightarrow> int option \<Rightarrow> int \<Rightarrow> real \<Rightarrow> model \<Rightarrow> model" where
  "set_head dj s_cls t_cls v self =
     self\<lparr>head_distortion_table :=
            (head_distortion_table self)
              (dj := (head_distortion_table self dj)
                 (s_cls := (head_distortion_table self dj s_cls)(t_cls := v)))\<rparr>"

definition set_non_head :: "int \<Rightarrow> int \<Rightarrow> real \<Rightarrow> model \<Rightarrow> model" where
  "set_non_head dj t_cls v self =
     self\<lparr>non_head_distortion_table :=
            (non_head_distortion_table self)
              (dj := (non_head_distortion_table self dj)(t_cls := v))\<rparr>"

definition uniform_body :: "real \<Rightarrow> int list \<Rightarrow> model \<Rightarrow> nat \<Rightarrow> int \<Rightarrow> model" where
  "uniform_body ip source_classes self dj t_cls =
     foldl (\<lambda>self s_cls.
              set_head (- int dj) (Some s_cls) t_cls ip
                (set_head (int dj) (Some s_cls) t_cls ip self))
       (set_non_head (- int dj) t_cls ip (set_non_head (int dj) t_cls ip self))
       source_classes"

definition set_uniform_distortion_probabilities ::
  "real \<Rightarrow> aligned_sent list \<Rightarrow> model \<Rightarrow> warning list \<times> model" where
  "set_uniform_distortion_probabilities MIN_PROB sentence_aligned_corpus self =
     (let max_m = longest_target_sentence_length sentence_aligned_corpus;
          ip = initial_prob MIN_PROB max_m;
          source_classes = get_unique_word_classes (src_classes self);
          target_classes = get_unique_word_classes (trg_classes self)
      in (uniform_warnings MIN_PROB max_m,
          foldl (\<lambda>self dj. foldl (\<lambda>self t_cls. uniform_body ip source_classes self dj t_cls)
                             self target_classes)
            self [1..<max_m]))"

subsection \<open>The M step\<close>

definition set_translation :: "word \<Rightarrow> word option \<Rightarrow> real \<Rightarrow> model \<Rightarrow> model" where
  "set_translation t s v self =
     self\<lparr>translation_table :=
            (translation_table self)(t := (translation_table self t)(s := v))\<rparr>"

definition set_fertility :: "nat \<Rightarrow> word option \<Rightarrow> real \<Rightarrow> model \<Rightarrow> model" where
  "set_fertility phi s v self =
     self\<lparr>fertility_table :=
            (fertility_table self)(phi := (fertility_table self phi)(s := v))\<rparr>"

definition maximize_lexical_translation_probabilities ::
  "real \<Rightarrow> counts \<Rightarrow> model \<Rightarrow> error + model" where
  "maximize_lexical_translation_probabilities MIN_PROB counts self =
     for_each (\<lambda>(t, src_words).
        for_each (\<lambda>s self.
            ebind (py_div (dd_get (dd_get (t_given_s counts) [] t) 0 s)
                     (dd_get (any_t_given_s counts) 0 s)) (\<lambda>estimate.
              Inr (set_translation t s (max estimate MIN_PROB) self)))
          (map fst src_words))
       (t_given_s counts) self"

definition maximize_distortion_probabilities :: "real \<Rightarrow> counts \<Rightarrow> model \<Rightarrow> error + model" where
  "maximize_distortion_probabilities MIN_PROB counts self =
     ebind
       (for_each (\<lambda>(dj, source_classes).
          for_each (\<lambda>(s_cls, target_classes).
              for_each (\<lambda>t_cls self.
                  ebind (py_div (dd_get (dd_get (dd_get (head_distortion counts) [] dj) [] s_cls) 0 t_cls)
                           (dd_get (dd_get (head_distortion_for_any_dj counts) [] s_cls) 0 t_cls))
                    (\<lambda>estimate. Inr (set_head dj s_cls t_cls (max estimate MIN_PROB) self)))
                (map fst target_classes))
            source_classes)
         (head_distortion counts) self)
       (for_each (\<lambda>(dj, target_classes).
          for_each (\<lambda>t_cls self.
              ebind (py_div (dd_get (dd_get (non_head_distortion counts) [] dj) 0 t_cls)
                       (dd_get (non_head_distortion_for_any_dj counts) 0 t_cls))
                (\<lambda>estimate. Inr (set_non_head dj t_cls (max estimate MIN_PROB) self)))
            (map fst target_classes))
         (non_head_distortion counts))"

definition maximize_fertility_probabilities :: "real \<Rightarrow> counts \<Rightarrow> model \<Rightarrow> error + model" where
  "maximize_fertility_probabilities MIN_PROB counts self =
     for_each (\<lambda>(fertility, src_words).
        for_each (\<lambda>s self.
            ebind (py_div (dd_get (dd_get (counts.fertility counts) [] fertility) 0 s)
                     (dd_get (fertility_for_any_phi counts) 0 s)) (\<lambda>estimate.
              Inr (set_fertility fertility s (max estimate MIN_PROB) self)))
          (map fst src_words))
       (counts.fertility counts) self"

definition maximize_null_generation_probabilities ::
  "real \<Rightarrow> counts \<Rightarrow> model \<Rightarrow> error + model" where
  "maximize_null_generation_probabilities MIN_PROB counts self =
     ebind (py_div (count_p1 counts) (count_p1 counts + count_p0 counts)) (\<lambda>p1_estimate.
       let p1_estimate = max p1_estimate MIN_PROB
       in Inr (self\<lparr>p1 := min p1_estimate (1 - MIN_PROB)\<rparr>))"

subsection \<open>\<^verbatim>\<open>train\<close>\<close>

text \<open>
  \<^verbatim>\<open>IBMModel.sample\<close> (hill climbing, in nltk/align/ibm_model.py) is not among the sources:
  it is the parameter \<open>sample\<close>, a function of the model and the two sentences.
  \<open>train_candidate\<close> is the body of the loop over the sampled alignments, \<open>train_sentence\<close>
  the body of the loop over the corpus, \<open>m_step\<close> the part of \<^verbatim>\<open>train\<close> after the loops.
\<close>

type_synonym sampler = "model \<Rightarrow> word option list \<Rightarrow> word list \<Rightarrow> alignment_info list"

definition train_candidate ::
  "real \<Rightarrow> model \<Rightarrow> nat \<Rightarrow> real \<Rightarrow> alignment_info \<Rightarrow> counts \<Rightarrow> error + counts" where
  "train_candidate MIN_PROB self m total_count alignment_info counts =
     ebind (prob_t_a_given_s MIN_PROB self alignment_info) (\<lambda>count.
     ebind (py_div count total_count) (\<lambda>normalized_count.
     ebind (for_each (\<lambda>j counts.
                ebind (update_lexical_translation normalized_count alignment_info j counts)
                  (update_distortion normalized_count alignment_info j
                     (src_classes self) (trg_classes self)))
              [1..<m + 1] (counts\<lparr>null_count := 0\<rparr>)) (\<lambda>counts.
       update_fertility normalized_count alignment_info
         (update_null_generation normalized_count alignment_info counts))))"

definition train_sentence ::
  "real \<Rightarrow> sampler \<Rightarrow> model \<Rightarrow> aligned_sent \<Rightarrow> counts \<Rightarrow> error + counts" where
  "train_sentence MIN_PROB sample self aligned_sentence counts =
     (let src_sentence = None # map Some (mots aligned_sentence);
          trg_sentence = ''UNUSED'' # words aligned_sentence;
          m = length (words aligned_sentence);
          sampled_alignments = sample self src_sentence trg_sentence
      in ebind (prob_of_alignments MIN_PROB self sampled_alignments) (\<lambda>total_count.
           for_each (train_candidate MIN_PROB self m total_count) sampled_alignments counts))"

definition m_step :: "real \<Rightarrow> counts \<Rightarrow> model \<Rightarrow> error + model" where
  "m_step MIN_PROB counts self =
     (let existing_alignment_table = alignment_table self;
          self = reset_probabilities MIN_PROB self;
          self = self\<lparr>alignment_table := existing_alignment_table\<rparr>
      in ebind (maximize_lexical_translation_probabilities MIN_PROB counts self)
           (\<lambda>self. ebind (maximize_distortion_probabilities MIN_PROB counts self)
           (\<lambda>self. ebind (maximize_fertility_probabilities MIN_PROB counts self)
           (maximize_null_generation_probabilities MIN_PROB counts))))"

definition train :: "real \<Rightarrow> sampler \<Rightarrow> aligned_sent list \<Rightarrow> model \<Rightarrow> error + model" where
  "train MIN_PROB sample parallel_corpus self =
     ebind (for_each (train_sentence MIN_PROB sample self) parallel_corpus Counts)
       (\<lambda>counts. m_step MIN_PROB counts self)"

subsection \<open>Example inputs\<close>

text \<open>
  A model with the word classes of the module's doctest, in which the has fertility 1 and
  house has fertility 2, and a candidate for the pair (the house / das Haus ja klein): das
  is aligned to the, Haus and klein to house, ja to NULL.
\<close>

definition ex_model :: model where
  "ex_model =
     \<lparr>translation_table = (\<lambda>t s. 1 / 2),
      alignment_table = (\<lambda>i j l m. 1 / 2),
      fertility_table =
        (\<lambda>phi s. 1 / 10 ^ 12)
          (1 := (\<lambda>s. 1 / 10 ^ 12)(Some ''the'' := 1),
           2 := (\<lambda>s. 1 / 10 ^ 12)(Some ''house'' := 1)),
      p1 = 1 / 2,
      head_distortion_table = (\<lambda>dj s_cls t_cls. 1 / 4),
      non_head_distortion_table = (\<lambda>dj t_cls. 1 / 4),
      src_classes =
        [(''a'', 0), (''big'', 1), (''book'', 2), (''house'', 2), (''is'', 3), (''small'', 1),
         (''the'', 0)],
      trg_classes =
        [(''das'', 0), (''Buch'', 1), (''ein'', 0), (''Haus'', 1), (''ist'', 3), (''ja'', 4),
         (''klein'', 2)]\<rparr>"

definition ex_candidate :: alignment_info where
  "ex_candidate =
     \<lparr>alignment = [0, 1, 2, 0, 2],
      src_sentence = [None, Some ''the'', Some ''house''],
      trg_sentence = [''UNUSED'', ''das'', ''Haus'', ''ja'', ''klein''],
      cepts = [[3], [1], [2, 4]]\<rparr>"

text \<open>The same pair with das aligned to NULL as well.\<close>

definition ex_candidate_two_null :: alignment_info where
  "ex_candidate_two_null =
     \<lparr>alignment = [0, 0, 2, 0, 2],
      src_sentence = [None, Some ''the'', Some ''house''],
      trg_sentence = [''UNUSED'', ''das'', ''Haus'', ''ja'', ''klein''],
      cepts = [[1, 3], [], [2, 4]]\<rparr>"

text \<open>A one-pair corpus and a sampler that returns the monotone alignment only.\<close>

definition ex_corpus :: "aligned_sent list" where
  "ex_corpus = [\<lparr>words = [''das'', ''Haus''], mots = [''the'', ''house'']\<rparr>]"

definition ex_sample :: sampler where
  "ex_sample M src trg =
     [\<lparr>alignment = [0, 1, 2], src_sentence = src, trg_sentence = trg,
       cepts = [[], [1], [2]]\<rparr>]"

text \<open>The counts that the E step collects on \<open>ex_corpus\<close> with \<open>ex_sample\<close> and \<open>ex_model\<close>.\<close>

definition ex_counts :: counts where
  "ex_counts =
     \<lparr>t_given_s = [(''das'', [(Some ''the'', 1)]), (''Haus'', [(Some ''house'', 1)])],
      any_t_given_s = [(Some ''the'', 1), (Some ''house'', 1)],
      head_distortion = [(1, [(None, [(0, 1)]), (Some 0, [(1, 1)])])],
      head_distortion_for_any_dj = [(None, [(0, 1)]), (Some 0, [(1, 1)])],
      non_head_distortion = [],
      non_head_distortion_for_any_dj = [],
      count_p0 = 2,
      count_p1 = 0,
      fertility = [(0, [(None, 1)]), (1, [(Some ''the'', 1), (Some ''house'', 1)])],
      fertility_for_any_phi = [(None, 1), (Some ''the'', 1), (Some ''house'', 1)],
      null_count = 0\<rparr>"

subsection \<open>The floor invariant\<close>





subsection \<open>The running product without the early returns\<close>


section \<open>Properties\<close>

subsection \<open>The null generation term\<close>

text \<open>
  The loop of \<^verbatim>\<open>null_generation_term\<close> multiplies by \<open>(n - i + 1) / i\<close> for \<open>i = 1, \<dots>, k\<close>;
  the product is the binomial coefficient, one factor at a time.
\<close>

lemma gchoose_next:
  "(x gchoose Suc k) = (x gchoose k) * ((x - real k) / real (Suc k))" for x :: real
proof -
  have shift: "(x gchoose Suc k) = x / real (Suc k) * ((x - 1) gchoose k)"
    using gbinomial_factors [of "x - 1" k] by simp
  have absorb: "x * ((x - 1) gchoose k) = (x - real k) * (x gchoose k)"
    by (simp add: gbinomial_absorb_comp)
  have "(x gchoose Suc k) = (x * ((x - 1) gchoose k)) / real (Suc k)"
    using shift by simp
  then show ?thesis unfolding absorb by simp
qed

lemma incremental_choose:
  "foldl (\<lambda>v i. v * (real_of_int (n - int i + 1) / real i)) v [1..<k + 1]
     = v * (real_of_int n gchoose k)"
proof (induction k)
  case 0
  show ?case by simp
next
  case (Suc k)
  have "real_of_int (n - int (Suc k) + 1) = real_of_int n - real k" by simp
  then show ?case using Suc by (simp add: gchoose_next del: of_nat_Suc)
qed

lemma null_generation_term_eq:
  assumes "p1 M \<noteq> 1 \<or> 2 * int (fertility_of_i a 0) \<le> int (length (trg_sentence a)) - 1"
  shows "null_generation_term MIN_PROB M a =
     (let phi0 = fertility_of_i a 0; m = int (length (trg_sentence a)) - 1;
          v = p1 M ^ phi0 * power_int (p0 M) (m - 2 * int phi0)
      in Inr (if v < MIN_PROB then MIN_PROB else v * (real_of_int (m - int phi0) gchoose phi0)))"
proof -
  define phi0 where "phi0 = fertility_of_i a 0"
  define m where "m = int (length (trg_sentence a)) - 1"
  have first: "py_pow (p1 M) (int phi0) = Inr (p1 M ^ phi0)"
    by (simp add: py_pow_def)
  have "\<not> (p0 M = 0 \<and> m - 2 * int phi0 < 0)"
    using assms by (auto simp: p0_def phi0_def m_def)
  then have second: "py_pow (p0 M) (m - 2 * int phi0) = Inr (power_int (p0 M) (m - 2 * int phi0))"
    unfolding py_pow_def by (rule if_not_P)
  have "null_generation_term MIN_PROB M a =
          ebind (py_pow (p1 M) (int phi0)) (\<lambda>x.
          ebind (py_pow (p0 M) (m - 2 * int phi0)) (\<lambda>y.
            if 1 * (x * y) < MIN_PROB then Inr MIN_PROB
            else Inr (1 * (x * y) * (real_of_int (m - int phi0) gchoose phi0))))"
    unfolding null_generation_term_def Let_def incremental_choose phi0_def m_def ..
  also have "\<dots> = Inr (if p1 M ^ phi0 * power_int (p0 M) (m - 2 * int phi0) < MIN_PROB
                        then MIN_PROB
                        else p1 M ^ phi0 * power_int (p0 M) (m - 2 * int phi0)
                               * (real_of_int (m - int phi0) gchoose phi0))"
    unfolding first second by (simp add: ebind_def)
  finally show ?thesis
    unfolding Let_def phi0_def m_def .
qed

text \<open>
  Claim C4, as the code has it. With \<open>phi0\<close> the fertility of NULL, \<open>m\<close> the target
  length and \<open>v = p1 ^ phi0 * p0 ^ (m - 2 * phi0)\<close>: when \<open>phi0 \<le> m\<close> and the power is defined,
  the null generation term is \<open>v * C(m - phi0, phi0)\<close>, the coefficient being built up
  factor by factor, unless \<open>v\<close> is below the floor: then the term is the floor and the
  coefficient is never multiplied in.
\<close>

theorem null_generation_term_formula:
  fixes MIN_PROB :: real and M :: model and a :: alignment_info
  defines "phi0 \<equiv> fertility_of_i a 0"
  defines "m \<equiv> int (length (trg_sentence a)) - 1"
  defines "v \<equiv> p1 M ^ phi0 * power_int (p0 M) (m - 2 * int phi0)"
  assumes "int phi0 \<le> m" and "p1 M \<noteq> 1 \<or> 2 * int phi0 \<le> m"
  shows "null_generation_term MIN_PROB M a =
           Inr (if v < MIN_PROB then MIN_PROB
                else v * real (nat (m - int phi0) choose phi0))"
proof -
  have "null_generation_term MIN_PROB M a =
          Inr (if v < MIN_PROB then MIN_PROB
               else v * (real_of_int (m - int phi0) gchoose phi0))"
    using null_generation_term_eq [of M a MIN_PROB] assms(5)
    by (simp add: Let_def phi0_def v_def m_def)
  moreover have "real_of_int (m - int phi0) = real (nat (m - int phi0))"
    using assms(4) by simp
  ultimately show ?thesis
    by (simp only: binomial_gbinomial [symmetric])
qed

text \<open>On \<open>ex_candidate\<close> (\<open>phi0 = 1\<close>, \<open>m = 4\<close>, \<open>p1 = 1 / 2\<close>) the term is \<open>3 / 8\<close>.\<close>

theorem null_generation_term_formula_witness:
  "null_generation_term (1 / 10 ^ 12) ex_model ex_candidate = Inr (3 / 8)"
proof -
  have phi0: "fertility_of_i ex_candidate 0 = 1"
    by (simp add: fertility_of_i_def tablet_def ex_candidate_def)
  have m: "int (length (trg_sentence ex_candidate)) - 1 = 4"
    by (simp add: ex_candidate_def)
  have p: "p1 ex_model = 1 / 2" "p0 ex_model = 1 / 2"
    by (simp_all add: ex_model_def p0_def)
  have h1: "int (fertility_of_i ex_candidate 0) \<le> int (length (trg_sentence ex_candidate)) - 1"
    unfolding phi0 m by simp
  have h2: "p1 ex_model \<noteq> 1 \<or>
      2 * int (fertility_of_i ex_candidate 0) \<le> int (length (trg_sentence ex_candidate)) - 1"
    unfolding phi0 m by simp
  have "null_generation_term (1 / 10 ^ 12) ex_model ex_candidate =
     Inr (if (1 / 2 :: real) ^ 1 * power_int (1 / 2) (4 - 2 * int 1) < 1 / 10 ^ 12 then 1 / 10 ^ 12
          else (1 / 2) ^ 1 * power_int (1 / 2) (4 - 2 * int 1) * real (nat (4 - int 1) choose 1))"
    using null_generation_term_formula [OF h1 h2, of "1 / 10 ^ 12"]
    by (simp only: phi0 m p)
  also have "\<dots> = Inr (3 / 8)"
    by (simp add: power_divide)
  finally show ?thesis .
qed

text \<open>
  The claim as stated, without the guard, fails where \<open>v\<close> is below the floor: with
  \<open>p1 = 1 / 10 ^ 7\<close>, the floor \<open>1 / 10 ^ 12\<close> and two words aligned to NULL,
  \<open>v = 1 / 10 ^ 14\<close> and the code returns the floor, not \<open>v * C(2, 2)\<close>.
\<close>

theorem null_generation_term_formula_counterexample:
  "null_generation_term (1 / 10 ^ 12) (ex_model\<lparr>p1 := 1 / 10 ^ 7\<rparr>) ex_candidate_two_null \<noteq>
     Inr (p1 (ex_model\<lparr>p1 := 1 / 10 ^ 7\<rparr>) ^ fertility_of_i ex_candidate_two_null 0
          * power_int (p0 (ex_model\<lparr>p1 := 1 / 10 ^ 7\<rparr>))
              (int (length (trg_sentence ex_candidate_two_null)) - 1
                 - 2 * int (fertility_of_i ex_candidate_two_null 0))
          * real ((length (trg_sentence ex_candidate_two_null) - 1
                     - fertility_of_i ex_candidate_two_null 0)
                  choose fertility_of_i ex_candidate_two_null 0))"
proof -
  have phi0: "fertility_of_i ex_candidate_two_null 0 = 2"
    by (simp add: fertility_of_i_def tablet_def ex_candidate_two_null_def)
  have len: "length (trg_sentence ex_candidate_two_null) = 5"
    by (simp add: ex_candidate_two_null_def)
  have p: "p1 (ex_model\<lparr>p1 := 1 / 10 ^ 7\<rparr>) = 1 / 10 ^ 7"
    by simp
  have "null_generation_term (1 / 10 ^ 12) (ex_model\<lparr>p1 := 1 / 10 ^ 7\<rparr>) ex_candidate_two_null
          = Inr (1 / 10 ^ 12)"
    using null_generation_term_eq
      [of "ex_model\<lparr>p1 := 1 / 10 ^ 7\<rparr>" ex_candidate_two_null "1 / 10 ^ 12"]
    unfolding phi0 len p Let_def by (simp add: power_divide)
  then show ?thesis
    unfolding phi0 len p by (simp add: power_divide)
qed

subsection \<open>The M step\<close>

text \<open>
  Claim C6. After an M step that returns, \<open>p1\<close> is the estimate
  \<open>count_p1 / (count_p1 + count_p0)\<close> raised to the floor and cut at \<open>1 - floor\<close>, it lies
  between the floor and \<open>1 - floor\<close> (for a floor of at most one half), and the \<open>p0\<close> that
  scoring derives from it satisfies \<open>p0 + p1 = 1\<close>.
\<close>

theorem m_step_p1:
  assumes "m_step MIN_PROB counts M = Inr M'" and "MIN_PROB \<le> 1 / 2"
  shows "p1 M' = min (max (count_p1 counts / (count_p1 counts + count_p0 counts)) MIN_PROB)
                   (1 - MIN_PROB)
         \<and> MIN_PROB \<le> p1 M' \<and> p1 M' \<le> 1 - MIN_PROB \<and> p0 M' + p1 M' = 1"
proof -
  from assms(1) obtain M2 where
    "maximize_null_generation_probabilities MIN_PROB counts M2 = Inr M'"
    by (auto simp: m_step_def Let_def ebind_def split: sum.splits)
  then have "p1 M' = min (max (count_p1 counts / (count_p1 counts + count_p0 counts)) MIN_PROB)
                       (1 - MIN_PROB)"
    by (auto simp: maximize_null_generation_probabilities_def Let_def ebind_def py_div_def
        split: if_splits)
  then show ?thesis
    using assms(2) by (auto simp: p0_def)
qed

text \<open>On the counts of the example corpus the estimate is 0, so \<open>p1\<close> is the floor.\<close>

theorem m_step_p1_witness:
  "(1 / 10 ^ 12 :: real) \<le> 1 / 2 \<and>
   (case m_step (1 / 10 ^ 12) ex_counts ex_model of
      Inl e \<Rightarrow> False
    | Inr M' \<Rightarrow> p1 M' = 1 / 10 ^ 12 \<and> p0 M' + p1 M' = 1)"
proof -
  have floor: "(1 / 10 ^ 12 :: real) \<le> 1 / 2"
    by simp
  obtain M' where run: "m_step (1 / 10 ^ 12) ex_counts ex_model = Inr M'"
    by (simp add: m_step_def Let_def ebind_def reset_probabilities_def
        IBMModel_reset_probabilities_def maximize_lexical_translation_probabilities_def
        maximize_distortion_probabilities_def maximize_fertility_probabilities_def
        maximize_null_generation_probabilities_def py_div_def dd_get_def ex_counts_def)
  have "p1 M' = 1 / 10 ^ 12 \<and> p0 M' + p1 M' = 1"
    using m_step_p1 [OF run floor] by (simp add: ex_counts_def)
  then show ?thesis
    unfolding run using floor by simp
qed

subsection \<open>The distortion term\<close>

text \<open>The previous cept of a position lies before the source position it is aligned to.\<close>

lemma find_in_set: "List.find P xs = Some x \<Longrightarrow> x \<in> set xs"
  by (induction xs) (auto split: if_splits)

lemma previous_cept_before:
  assumes "previous_cept a j = Some pc"
  shows "pc < alignment a ! j"
proof -
  from assms have "pc \<in> set (rev [1..<alignment a ! j])"
    unfolding previous_cept_def by (rule find_in_set)
  then show ?thesis by simp
qed

text \<open>
  Claim C3. For a target position \<open>j\<close> of the candidate, the distortion factor is one of
  three cases that exclude each other: 1 when \<open>j\<close> is aligned to NULL; the head distortion
  entry at displacement \<open>j - center_of_cept (previous_cept j)\<close>, keyed by the class of the
  previous cept's source word (the key \<open>None\<close> when there is no previous cept) and the
  class of the target word, when \<open>j\<close> is the head of its tablet; and the non-head entry
  at displacement \<open>j - previous_in_tablet j\<close>, keyed by the class of the target word,
  otherwise. The class lookups are those of the model's two dictionaries.
\<close>

theorem distortion_term_cases:
  assumes "j < length (trg_sentence a)" and "j < length (alignment a)"
  shows
    "(alignment a ! j = 0 \<longrightarrow> distortion_term M a j = Inr 1) \<and>
     (alignment a ! j \<noteq> 0 \<and> is_head_word a j \<and> previous_cept a j = None \<and>
      map_of (trg_classes M) (trg_sentence a ! j) = Some tc
        \<longrightarrow> distortion_term M a j =
              Inr (head_distortion_table M (int j - center_of_cept a None) None tc)) \<and>
     (alignment a ! j \<noteq> 0 \<and> is_head_word a j \<and> previous_cept a j = Some pc \<and>
      pc < length (src_sentence a) \<and> src_sentence a ! pc = Some w \<and>
      map_of (src_classes M) w = Some sc \<and>
      map_of (trg_classes M) (trg_sentence a ! j) = Some tc
        \<longrightarrow> distortion_term M a j =
              Inr (head_distortion_table M (int j - center_of_cept a (Some pc)) (Some sc) tc)) \<and>
     (alignment a ! j \<noteq> 0 \<and> \<not> is_head_word a j \<and>
      map_of (trg_classes M) (trg_sentence a ! j) = Some tc
        \<longrightarrow> distortion_term M a j =
              Inr (non_head_distortion_table M (int j - int (previous_in_tablet a j)) tc))"
  using assms
  by (simp add: distortion_term_def list_get_def dict_get_def src_class_of_def ebind_def Let_def)

text \<open>
  On \<open>ex_candidate\<close>: position 3 is aligned to NULL, positions 1 and 2 are heads (the
  first without a previous cept), position 4 follows position 2 in its tablet.
\<close>

theorem distortion_term_cases_witness:
  "distortion_term ex_model ex_candidate 3 = Inr 1 \<and>
   distortion_term ex_model ex_candidate 1 = Inr (head_distortion_table ex_model 1 None 0) \<and>
   distortion_term ex_model ex_candidate 2 = Inr (head_distortion_table ex_model 1 (Some 0) 1) \<and>
   distortion_term ex_model ex_candidate 4 = Inr (non_head_distortion_table ex_model 2 2)"
proof -
  have len: "3 < length (trg_sentence ex_candidate)" "3 < length (alignment ex_candidate)"
    "1 < length (trg_sentence ex_candidate)" "1 < length (alignment ex_candidate)"
    "2 < length (trg_sentence ex_candidate)" "2 < length (alignment ex_candidate)"
    "4 < length (trg_sentence ex_candidate)" "4 < length (alignment ex_candidate)"
    by (simp_all add: ex_candidate_def)
  have null: "alignment ex_candidate ! 3 = 0"
    by (simp add: ex_candidate_def)
  have first: "alignment ex_candidate ! 1 \<noteq> 0 \<and> is_head_word ex_candidate 1 \<and>
      previous_cept ex_candidate 1 = None \<and>
      map_of (trg_classes ex_model) (trg_sentence ex_candidate ! 1) = Some 0"
    by (simp add: ex_candidate_def ex_model_def is_head_word_def tablet_def previous_cept_def)
  have second: "alignment ex_candidate ! 2 \<noteq> 0 \<and> is_head_word ex_candidate 2 \<and>
      previous_cept ex_candidate 2 = Some 1 \<and> 1 < length (src_sentence ex_candidate) \<and>
      src_sentence ex_candidate ! 1 = Some ''the'' \<and>
      map_of (src_classes ex_model) ''the'' = Some 0 \<and>
      map_of (trg_classes ex_model) (trg_sentence ex_candidate ! 2) = Some 1"
    by (simp add: ex_candidate_def ex_model_def is_head_word_def tablet_def previous_cept_def
        fertility_of_i_def upt_rec)
  have third: "alignment ex_candidate ! 4 \<noteq> 0 \<and> \<not> is_head_word ex_candidate 4 \<and>
      map_of (trg_classes ex_model) (trg_sentence ex_candidate ! 4) = Some 2"
    by (simp add: ex_candidate_def ex_model_def is_head_word_def tablet_def)
  have centre: "center_of_cept ex_candidate None = 0" "center_of_cept ex_candidate (Some 1) = 1"
    by (simp_all add: center_of_cept_def tablet_def ex_candidate_def)
  have before: "previous_in_tablet ex_candidate 4 = 2"
    by (simp add: previous_in_tablet_def tablet_def ex_candidate_def)
  have "distortion_term ex_model ex_candidate 3 = Inr 1"
    using distortion_term_cases [OF len(1,2), where M = ex_model] null by blast
  moreover have "distortion_term ex_model ex_candidate 1 =
      Inr (head_distortion_table ex_model (int 1 - center_of_cept ex_candidate None) None 0)"
    using distortion_term_cases [OF len(3,4), where M = ex_model and tc = 0] first by blast
  moreover have "distortion_term ex_model ex_candidate 2 =
      Inr (head_distortion_table ex_model (int 2 - center_of_cept ex_candidate (Some 1)) (Some 0) 1)"
    using distortion_term_cases [OF len(5,6), where M = ex_model and pc = 1 and w = "''the''"
        and sc = 0 and tc = 1] second by blast
  moreover have "distortion_term ex_model ex_candidate 4 =
      Inr (non_head_distortion_table ex_model (int 4 - int (previous_in_tablet ex_candidate 4)) 2)"
    using distortion_term_cases [OF len(7,8), where M = ex_model and tc = 2] third by blast
  ultimately show ?thesis
    unfolding centre before by simp
qed

text \<open>
  Claim C9. A position that is not aligned to NULL needs the class of its target word,
  and a head with a previous cept needs the class of that cept's source word. When the
  word is absent from the lookup, both the distortion term of scoring and the distortion
  update of the counts end in a \<open>KeyError\<close>; no default class is used.
\<close>

theorem missing_word_class_raises:
  assumes "j < length (trg_sentence a)" and "j < length (alignment a)"
    and "alignment a ! j \<noteq> 0" and "alignment a ! j < length (src_sentence a)"
  shows
    "(map_of (trg_classes M) (trg_sentence a ! j) = None
        \<longrightarrow> distortion_term M a j = Inl KeyError \<and>
            update_distortion count a j (src_classes M) (trg_classes M) counts = Inl KeyError) \<and>
     (is_head_word a j \<and> previous_cept a j = Some pc \<and> src_sentence a ! pc = Some w \<and>
      map_of (src_classes M) w = None
        \<longrightarrow> distortion_term M a j = Inl KeyError \<and>
            update_distortion count a j (src_classes M) (trg_classes M) counts = Inl KeyError)"
proof -
  have range: "pc' < length (src_sentence a)" if "previous_cept a j = Some pc'" for pc'
    using previous_cept_before [OF that] assms(4) by simp
  show ?thesis
    using assms range
    by (auto simp: distortion_term_def update_distortion_def list_get_def dict_get_def
        src_class_of_def ebind_def Let_def split: option.splits sum.splits)
qed

text \<open>
  With a target lookup that lacks klein, and with a source lookup that lacks the, on
  \<open>ex_candidate\<close>.
\<close>

theorem missing_word_class_raises_witness:
  "distortion_term (ex_model\<lparr>trg_classes := [(''das'', 0)]\<rparr>) ex_candidate 4 = Inl KeyError \<and>
   update_distortion 1 ex_candidate 4 (src_classes (ex_model\<lparr>trg_classes := [(''das'', 0)]\<rparr>))
     (trg_classes (ex_model\<lparr>trg_classes := [(''das'', 0)]\<rparr>)) Counts = Inl KeyError \<and>
   distortion_term (ex_model\<lparr>src_classes := [(''house'', 2)]\<rparr>) ex_candidate 2 = Inl KeyError \<and>
   update_distortion 1 ex_candidate 2 (src_classes (ex_model\<lparr>src_classes := [(''house'', 2)]\<rparr>))
     (trg_classes (ex_model\<lparr>src_classes := [(''house'', 2)]\<rparr>)) Counts = Inl KeyError"
proof -
  have pos4: "4 < length (trg_sentence ex_candidate)" "4 < length (alignment ex_candidate)"
    "alignment ex_candidate ! 4 \<noteq> 0"
    "alignment ex_candidate ! 4 < length (src_sentence ex_candidate)"
    by (simp_all add: ex_candidate_def)
  have pos2: "2 < length (trg_sentence ex_candidate)" "2 < length (alignment ex_candidate)"
    "alignment ex_candidate ! 2 \<noteq> 0"
    "alignment ex_candidate ! 2 < length (src_sentence ex_candidate)"
    by (simp_all add: ex_candidate_def)
  have klein: "map_of (trg_classes (ex_model\<lparr>trg_classes := [(''das'', 0)]\<rparr>))
      (trg_sentence ex_candidate ! 4) = None"
    by (simp add: ex_candidate_def)
  have the: "is_head_word ex_candidate 2 \<and> previous_cept ex_candidate 2 = Some 1 \<and>
      src_sentence ex_candidate ! 1 = Some ''the'' \<and>
      map_of (src_classes (ex_model\<lparr>src_classes := [(''house'', 2)]\<rparr>)) ''the'' = None"
    by (simp add: ex_candidate_def is_head_word_def tablet_def previous_cept_def
        fertility_of_i_def upt_rec)
  show ?thesis
    using missing_word_class_raises [OF pos4, where M = "ex_model\<lparr>trg_classes := [(''das'', 0)]\<rparr>"
        and count = 1 and counts = Counts] klein
      missing_word_class_raises [OF pos2, where M = "ex_model\<lparr>src_classes := [(''house'', 2)]\<rparr>"
        and count = 1 and counts = Counts and pc = 1 and w = "''the''"] the
    by blast
qed

subsection \<open>Loops that may raise\<close>

lemma ebind_Inr: "ebind m f = Inr y \<longleftrightarrow> (\<exists>x. m = Inr x \<and> f x = Inr y)"
  by (cases m) (simp_all add: ebind_def)

lemma for_each_preserves:
  assumes step: "\<And>x s s'. x \<in> set xs \<Longrightarrow> P s \<Longrightarrow> body x s = Inr s' \<Longrightarrow> P s'"
    and "P s" and "for_each body xs s = Inr s'"
  shows "P s'"
  using assms
proof (induction xs arbitrary: s)
  case Nil
  then show ?case by simp
next
  case (Cons x xs)
  from Cons.prems(3) obtain s1 where first: "body x s = Inr s1"
    and rest: "for_each body xs s1 = Inr s'"
    by (auto simp: ebind_Inr)
  have "P s1"
    using Cons.prems(1) [of x s s1] Cons.prems(2) first by simp
  moreover have "\<And>y t t'. y \<in> set xs \<Longrightarrow> P t \<Longrightarrow> body y t = Inr t' \<Longrightarrow> P t'"
    using Cons.prems(1) by (meson list.set_intros(2))
  ultimately show ?case
    using rest by (intro Cons.IH [of s1])
qed

subsection \<open>The score is never below the floor\<close>

lemma score_loop_Cons:
  "score_loop MIN_PROB M a (j # js) probability =
     ebind (lexical_translation_term M a j) (\<lambda>l.
       if probability * l < MIN_PROB then Inr MIN_PROB
       else ebind (distortion_term M a j) (\<lambda>d.
         if probability * l * d < MIN_PROB then Inr MIN_PROB
         else score_loop MIN_PROB M a js (probability * l * d)))"
  unfolding score_loop.simps Let_def ..

lemma prob_t_a_given_s_unfold:
  "prob_t_a_given_s MIN_PROB M a =
     ebind (null_generation_term MIN_PROB M a) (\<lambda>n.
       if n < MIN_PROB then Inr MIN_PROB
       else if n * fertility_term MIN_PROB M a < MIN_PROB then Inr MIN_PROB
       else score_loop MIN_PROB M a [1..<length (trg_sentence a)]
              (n * fertility_term MIN_PROB M a))"
  unfolding prob_t_a_given_s_def Let_def mult_1 ..

lemma score_loop_floor:
  assumes "MIN_PROB \<le> probability"
    and "score_loop MIN_PROB M a js probability = Inr v"
  shows "MIN_PROB \<le> v"
  using assms
proof (induction js arbitrary: probability)
  case Nil
  then show ?case by simp
next
  case (Cons j js)
  from Cons.prems(2) obtain l where l: "lexical_translation_term M a j = Inr l"
    and after_l: "(if probability * l < MIN_PROB then Inr MIN_PROB
        else ebind (distortion_term M a j) (\<lambda>d.
          if probability * l * d < MIN_PROB then Inr MIN_PROB
          else score_loop MIN_PROB M a js (probability * l * d))) = Inr v"
    unfolding score_loop_Cons by (auto simp: ebind_Inr)
  show ?case
  proof (cases "probability * l < MIN_PROB")
    case True
    with after_l show ?thesis by simp
  next
    case False
    with after_l obtain d where d: "distortion_term M a j = Inr d"
      and after_d: "(if probability * l * d < MIN_PROB then Inr MIN_PROB
          else score_loop MIN_PROB M a js (probability * l * d)) = Inr v"
      by (auto simp: ebind_Inr)
    show ?thesis
    proof (cases "probability * l * d < MIN_PROB")
      case True
      with after_d show ?thesis by simp
    next
      case False
      with after_d have "score_loop MIN_PROB M a js (probability * l * d) = Inr v"
        by simp
      with False show ?thesis
        using Cons.IH [of "probability * l * d"] by simp
    qed
  qed
qed

lemma prob_t_a_given_s_floor:
  assumes "prob_t_a_given_s MIN_PROB M a = Inr v"
  shows "MIN_PROB \<le> v"
proof -
  from assms obtain n where
    rest: "(if n < MIN_PROB then Inr MIN_PROB
       else if n * fertility_term MIN_PROB M a < MIN_PROB then Inr MIN_PROB
       else score_loop MIN_PROB M a [1..<length (trg_sentence a)]
              (n * fertility_term MIN_PROB M a)) = Inr v"
    unfolding prob_t_a_given_s_unfold by (auto simp: ebind_Inr)
  show ?thesis
  proof (cases "n < MIN_PROB \<or> n * fertility_term MIN_PROB M a < MIN_PROB")
    case True
    with rest show ?thesis by (auto split: if_splits)
  next
    case False
    with rest have "score_loop MIN_PROB M a [1..<length (trg_sentence a)]
        (n * fertility_term MIN_PROB M a) = Inr v"
      by simp
    with False show ?thesis
      using score_loop_floor [of MIN_PROB "n * fertility_term MIN_PROB M a"] by simp
  qed
qed

lemma sum_of_scores:
  assumes "for_each (\<lambda>alignment_info probability.
               ebind (prob_t_a_given_s MIN_PROB M alignment_info) (\<lambda>p. Inr (probability + p)))
             alignments acc = Inr total_count"
  shows "acc + real (length alignments) * MIN_PROB \<le> total_count"
  using assms
proof (induction alignments arbitrary: acc)
  case Nil
  then show ?case by simp
next
  case (Cons a alignments)
  from Cons.prems obtain p where p: "prob_t_a_given_s MIN_PROB M a = Inr p"
    and rest: "for_each (\<lambda>alignment_info probability.
               ebind (prob_t_a_given_s MIN_PROB M alignment_info) (\<lambda>p. Inr (probability + p)))
             alignments (acc + p) = Inr total_count"
    by (auto simp: ebind_Inr)
  have "MIN_PROB \<le> p"
    using p by (rule prob_t_a_given_s_floor)
  moreover have "acc + p + real (length alignments) * MIN_PROB \<le> total_count"
    using rest by (rule Cons.IH)
  ultimately show ?case
    by (simp add: algebra_simps)
qed

text \<open>The example model and candidate, evaluated.\<close>

lemmas ex_simps =
  Let_def ebind_def list_get_def dict_get_def src_class_of_def p0_def py_pow_def py_div_def
  fertility_of_i_def tablet_def is_head_word_def previous_cept_def center_of_cept_def
  previous_in_tablet_def upt_rec power_divide

lemma ex_score: "prob_t_a_given_s (1 / 10 ^ 12) ex_model ex_candidate = Inr (3 / 4096)"
  by (simp add: prob_t_a_given_s_def null_generation_term_def fertility_term_def
      lexical_translation_term_def distortion_term_def ex_model_def ex_candidate_def ex_simps)

text \<open>
  Claim C10. For a positive floor, a score that \<^verbatim>\<open>prob_t_a_given_s\<close> returns is at least the
  floor, hence positive; the sum of the scores of a non-empty list of candidates is
  positive, and dividing a score by it does not raise.
\<close>

theorem score_at_least_floor:
  assumes "0 < MIN_PROB"
  shows "(prob_t_a_given_s MIN_PROB M a = Inr v \<longrightarrow> MIN_PROB \<le> v \<and> 0 < v) \<and>
         (alignments \<noteq> [] \<and> prob_of_alignments MIN_PROB M alignments = Inr total_count
            \<longrightarrow> 0 < total_count \<and>
                (\<forall>count. py_div count total_count = Inr (count / total_count)))"
proof -
  have "MIN_PROB \<le> v \<and> 0 < v" if "prob_t_a_given_s MIN_PROB M a = Inr v"
    using prob_t_a_given_s_floor [OF that] assms by simp
  moreover have "0 < total_count"
    if "alignments \<noteq> []" and "prob_of_alignments MIN_PROB M alignments = Inr total_count"
  proof -
    have "0 + real (length alignments) * MIN_PROB \<le> total_count"
      using that(2) unfolding prob_of_alignments_def by (rule sum_of_scores)
    moreover have "0 < real (length alignments) * MIN_PROB"
      using that(1) assms by simp
    ultimately show ?thesis by simp
  qed
  ultimately show ?thesis
    by (auto simp: py_div_def)
qed

text \<open>The score of \<open>ex_candidate\<close> is \<open>3 / 4096\<close>; as the only candidate it has weight 1.\<close>

theorem score_at_least_floor_witness:
  "prob_t_a_given_s (1 / 10 ^ 12) ex_model ex_candidate = Inr (3 / 4096) \<and>
   (1 / 10 ^ 12 :: real) \<le> 3 / 4096 \<and>
   prob_of_alignments (1 / 10 ^ 12) ex_model [ex_candidate] = Inr (3 / 4096) \<and>
   py_div (3 / 4096) (3 / 4096) = Inr ((3 / 4096) / (3 / 4096))"
proof -
  have floor: "(0 :: real) < 1 / 10 ^ 12"
    by simp
  have total_count: "prob_of_alignments (1 / 10 ^ 12) ex_model [ex_candidate] = Inr (3 / 4096)"
    unfolding prob_of_alignments_def for_each.simps ex_score by (simp add: ebind_def)
  have nonempty: "[ex_candidate] \<noteq> []"
    by simp
  show ?thesis
    using score_at_least_floor [OF floor, of ex_model ex_candidate "3 / 4096" "[ex_candidate]"
        "3 / 4096"] ex_score total_count nonempty
    by blast
qed

subsection \<open>The counts of null generation\<close>

lemma update_lexical_translation_frame:
  assumes "update_lexical_translation count a j self = Inr self'"
  shows "null_count self' = null_count self \<and> count_p0 self' = count_p0 self \<and>
         count_p1 self' = count_p1 self"
  using assms by (auto simp: update_lexical_translation_def ebind_Inr)

lemma update_distortion_null:
  assumes "update_distortion count a j source_word_classes target_word_classes self = Inr self'"
  shows "count_p0 self' = count_p0 self \<and> count_p1 self' = count_p1 self \<and>
         null_count self' = null_count self + (if alignment a ! j = 0 then 1 else 0)"
  using assms
  by (auto simp: update_distortion_def ebind_Inr Let_def list_get_def split: if_splits)

lemma position_loop_null:
  assumes "for_each (\<lambda>j counts.
               ebind (update_lexical_translation count a j counts)
                 (update_distortion count a j source_word_classes target_word_classes))
             js self = Inr self'"
  shows "count_p0 self' = count_p0 self \<and> count_p1 self' = count_p1 self \<and>
         null_count self' = null_count self + int (length (filter (\<lambda>j. alignment a ! j = 0) js))"
  using assms
proof (induction js arbitrary: self)
  case Nil
  then show ?case by simp
next
  case (Cons j js)
  from Cons.prems obtain s1 s2 where
    lex: "update_lexical_translation count a j self = Inr s1"
    and dist: "update_distortion count a j source_word_classes target_word_classes s1 = Inr s2"
    and rest: "for_each (\<lambda>j counts.
               ebind (update_lexical_translation count a j counts)
                 (update_distortion count a j source_word_classes target_word_classes))
             js s2 = Inr self'"
    by (auto simp: ebind_Inr)
  show ?case
    using update_lexical_translation_frame [OF lex] update_distortion_null [OF dist]
      Cons.IH [OF rest]
    by simp
qed

lemma update_fertility_frame:
  assumes "update_fertility count a self = Inr self'"
  shows "count_p0 self' = count_p0 self \<and> count_p1 self' = count_p1 self"
proof -
  have "count_p0 self' = count_p0 self \<and> count_p1 self' = count_p1 self"
    using _ _ assms [unfolded update_fertility_def]
  proof (rule for_each_preserves [where P = "\<lambda>t. count_p0 t = count_p0 self \<and> count_p1 t = count_p1 self"])
    show "count_p0 self = count_p0 self \<and> count_p1 self = count_p1 self"
      by simp
  next
    fix i t t'
    assume "count_p0 t = count_p0 self \<and> count_p1 t = count_p1 self"
      and "(let s = src_sentence a ! i
            in ebind (list_get (cepts a) i) (\<lambda>cept.
                 let fertility = length cept
                 in Inr (t\<lparr>fertility := add2 (counts.fertility t) fertility s count,
                          fertility_for_any_phi := add1 (fertility_for_any_phi t) s count\<rparr>))) = Inr t'"
    then show "count_p0 t' = count_p0 self \<and> count_p1 t' = count_p1 self"
      by (auto simp: Let_def ebind_Inr)
  qed
  then show ?thesis .
qed

text \<open>
  Claim C8. Processing one sampled candidate of score \<open>count\<close> for a sentence of target
  length \<open>m\<close> adds \<open>n * w\<close> to \<open>count_p1\<close> and \<open>(m - 2 * n) * w\<close> to \<open>count_p0\<close>, where
  \<open>w = count / total_count\<close> is the normalised weight and \<open>n\<close> the number of target
  positions \<open>1, \<dots>, m\<close> aligned to NULL. The counter of NULL-aligned positions held before
  does not enter: it is set to zero for each candidate.
\<close>

theorem train_candidate_null_generation:
  assumes "train_candidate MIN_PROB M m total_count a counts = Inr counts'"
    and "prob_t_a_given_s MIN_PROB M a = Inr count"
    and "length (trg_sentence a) = m + 1"
  shows "(let w = count / total_count;
              n = int (length (filter (\<lambda>j. alignment a ! j = 0) [1..<m + 1]))
          in count_p1 counts' = count_p1 counts + real_of_int n * w \<and>
             count_p0 counts' = count_p0 counts + real_of_int (int m - 2 * n) * w)"
proof -
  define w where "w = count / total_count"
  from assms(1,2) obtain c1 where
    loop: "for_each (\<lambda>j counts.
               ebind (update_lexical_translation w a j counts)
                 (update_distortion w a j (src_classes M) (trg_classes M)))
             [1..<m + 1] (counts\<lparr>null_count := 0\<rparr>) = Inr c1"
    and last: "update_fertility w a (update_null_generation w a c1) = Inr counts'"
    by (auto simp: train_candidate_def ebind_Inr py_div_def w_def split: if_splits)
  have c1: "count_p0 c1 = count_p0 counts" "count_p1 c1 = count_p1 counts"
    "null_count c1 = int (length (filter (\<lambda>j. alignment a ! j = 0) [1..<m + 1]))"
    using position_loop_null [OF loop] by simp_all
  have m: "int (length (trg_sentence a)) - 1 = int m"
    using assms(3) by simp
  show ?thesis
    using update_fertility_frame [OF last] c1
    unfolding Let_def w_def [symmetric]
    by (simp add: update_null_generation_def Let_def m)
qed

text \<open>
  On \<open>ex_candidate\<close>, the only candidate (weight 1), with one word of four aligned to NULL
  and a stale counter of 7 at the start.
\<close>

theorem train_candidate_null_generation_witness:
  "(case train_candidate (1 / 10 ^ 12) ex_model 4 (3 / 4096) ex_candidate
           (Counts\<lparr>null_count := 7\<rparr>) of
      Inl e \<Rightarrow> False
    | Inr counts' \<Rightarrow> count_p1 counts' = 1 \<and> count_p0 counts' = 2)"
proof -
  obtain counts' where run:
    "train_candidate (1 / 10 ^ 12) ex_model 4 (3 / 4096) ex_candidate
       (Counts\<lparr>null_count := 7\<rparr>) = Inr counts'"
    unfolding train_candidate_def ex_score
    by (simp add: update_lexical_translation_def update_distortion_def
        update_null_generation_def update_fertility_def add1_def add2_def add3_def dd_get_def
        Counts_def ex_model_def ex_candidate_def ex_simps)
  have len: "length (trg_sentence ex_candidate) = 4 + 1"
    by (simp add: ex_candidate_def)
  have nulls: "filter (\<lambda>j. alignment ex_candidate ! j = 0) [1..<4 + 1] = [3]"
    by (simp add: ex_candidate_def upt_rec)
  have "count_p1 counts' = 1 \<and> count_p0 counts' = 2"
    using train_candidate_null_generation [OF run ex_score len]
    unfolding nulls Let_def by (simp add: Counts_def)
  then show ?thesis
    unfolding run by simp
qed

subsection \<open>Uniform initialisation of the distortion tables\<close>

text \<open>
  The three nested loops of \<^verbatim>\<open>set_uniform_distortion_probabilities\<close>, innermost first: what
  a lookup yields afterwards.
\<close>

lemma source_loop_head:
  "head_distortion_table
     (foldl (\<lambda>self s_cls. set_head (- d) (Some s_cls) t ip (set_head d (Some s_cls) t ip self))
        M ss) =
   (\<lambda>d' sc t'. if (d' = d \<or> d' = - d) \<and> t' = t \<and> sc \<in> Some ` set ss then ip
               else head_distortion_table M d' sc t')"
proof (induction ss arbitrary: M)
  case Nil
  show ?case by simp
next
  case (Cons s ss)
  show ?case
    unfolding foldl_Cons Cons.IH
    by (intro ext) (auto simp: set_head_def)
qed

lemma source_loop_non_head:
  "non_head_distortion_table
     (foldl (\<lambda>self s_cls. set_head (- d) (Some s_cls) t ip (set_head d (Some s_cls) t ip self))
        M ss) = non_head_distortion_table M"
  by (induction ss arbitrary: M) (simp_all add: set_head_def)

lemma uniform_body_head:
  "head_distortion_table (uniform_body ip ss M dj t) =
   (\<lambda>d' sc t'. if (d' = int dj \<or> d' = - int dj) \<and> t' = t \<and> sc \<in> Some ` set ss then ip
               else head_distortion_table M d' sc t')"
  unfolding uniform_body_def source_loop_head
  by (intro ext) (auto simp: set_non_head_def)

lemma uniform_body_non_head:
  "non_head_distortion_table (uniform_body ip ss M dj t) =
   (\<lambda>d' t'. if (d' = int dj \<or> d' = - int dj) \<and> t' = t then ip
            else non_head_distortion_table M d' t')"
  unfolding uniform_body_def source_loop_non_head
  by (intro ext) (auto simp: set_non_head_def)

lemma target_loop_head:
  "head_distortion_table (foldl (\<lambda>self t_cls. uniform_body ip ss self dj t_cls) M ts) =
   (\<lambda>d' sc t'. if (d' = int dj \<or> d' = - int dj) \<and> t' \<in> set ts \<and> sc \<in> Some ` set ss then ip
               else head_distortion_table M d' sc t')"
proof (induction ts arbitrary: M)
  case Nil
  show ?case by simp
next
  case (Cons t ts)
  show ?case
    unfolding foldl_Cons Cons.IH uniform_body_head
    by (intro ext) auto
qed

lemma target_loop_non_head:
  "non_head_distortion_table (foldl (\<lambda>self t_cls. uniform_body ip ss self dj t_cls) M ts) =
   (\<lambda>d' t'. if (d' = int dj \<or> d' = - int dj) \<and> t' \<in> set ts then ip
            else non_head_distortion_table M d' t')"
proof (induction ts arbitrary: M)
  case Nil
  show ?case by simp
next
  case (Cons t ts)
  show ?case
    unfolding foldl_Cons Cons.IH uniform_body_non_head
    by (intro ext) auto
qed

lemma displacement_loop_head:
  "head_distortion_table
     (foldl (\<lambda>self dj. foldl (\<lambda>self t_cls. uniform_body ip ss self dj t_cls) self ts) M ds) =
   (\<lambda>d' sc t'. if (\<exists>dj \<in> set ds. d' = int dj \<or> d' = - int dj) \<and> t' \<in> set ts \<and>
                  sc \<in> Some ` set ss then ip
               else head_distortion_table M d' sc t')"
proof (induction ds arbitrary: M)
  case Nil
  show ?case by simp
next
  case (Cons d ds)
  show ?case
    unfolding foldl_Cons Cons.IH target_loop_head
    by (intro ext) auto
qed

lemma displacement_loop_non_head:
  "non_head_distortion_table
     (foldl (\<lambda>self dj. foldl (\<lambda>self t_cls. uniform_body ip ss self dj t_cls) self ts) M ds) =
   (\<lambda>d' t'. if (\<exists>dj \<in> set ds. d' = int dj \<or> d' = - int dj) \<and> t' \<in> set ts then ip
            else non_head_distortion_table M d' t')"
proof (induction ds arbitrary: M)
  case Nil
  show ?case by simp
next
  case (Cons d ds)
  show ?case
    unfolding foldl_Cons Cons.IH target_loop_non_head
    by (intro ext) auto
qed

lemma displacement_range:
  "(\<exists>dj \<in> set [1..<max_m]. d = int dj \<or> d = - int dj) \<longleftrightarrow>
   d \<noteq> 0 \<and> - (int max_m - 1) \<le> d \<and> d \<le> int max_m - 1"
proof
  assume "\<exists>dj \<in> set [1..<max_m]. d = int dj \<or> d = - int dj"
  then show "d \<noteq> 0 \<and> - (int max_m - 1) \<le> d \<and> d \<le> int max_m - 1"
    by auto
next
  assume range: "d \<noteq> 0 \<and> - (int max_m - 1) \<le> d \<and> d \<le> int max_m - 1"
  then have "nat \<bar>d\<bar> \<in> set [1..<max_m]" and "d = int (nat \<bar>d\<bar>) \<or> d = - int (nat \<bar>d\<bar>)"
    by auto
  then show "\<exists>dj \<in> set [1..<max_m]. d = int dj \<or> d = - int dj"
    by blast
qed

lemma set_uniform_head:
  "head_distortion_table (snd (set_uniform_distortion_probabilities MIN_PROB corpus M)) dj sc tc =
     (if dj \<noteq> 0 \<and> - (int (longest_target_sentence_length corpus) - 1) \<le> dj \<and>
         dj \<le> int (longest_target_sentence_length corpus) - 1 \<and>
         tc \<in> snd ` set (trg_classes M) \<and> sc \<in> Some ` snd ` set (src_classes M)
      then initial_prob MIN_PROB (longest_target_sentence_length corpus)
      else head_distortion_table M dj sc tc)"
  unfolding set_uniform_distortion_probabilities_def Let_def snd_conv displacement_loop_head
    displacement_range
  by (simp add: get_unique_word_classes_def)

lemma set_uniform_non_head:
  "non_head_distortion_table (snd (set_uniform_distortion_probabilities MIN_PROB corpus M)) dj tc =
     (if dj \<noteq> 0 \<and> - (int (longest_target_sentence_length corpus) - 1) \<le> dj \<and>
         dj \<le> int (longest_target_sentence_length corpus) - 1 \<and>
         tc \<in> snd ` set (trg_classes M)
      then initial_prob MIN_PROB (longest_target_sentence_length corpus)
      else non_head_distortion_table M dj tc)"
  unfolding set_uniform_distortion_probabilities_def Let_def snd_conv displacement_loop_non_head
    displacement_range
  by (simp add: get_unique_word_classes_def)

lemma longest_fold:
  "foldl (\<lambda>max_m aligned_sentence.
            let m = length (words aligned_sentence) in if m > max_m then m else max_m)
     acc corpus = Max (insert acc (length ` words ` set corpus))"
proof (induction corpus arbitrary: acc)
  case Nil
  show ?case by simp
next
  case (Cons s corpus)
  have step: "(let m = length (words s) in if m > acc then m else acc) = max acc (length (words s))"
    by (simp add: Let_def max_def)
  have "Max (insert (max acc (length (words s))) (length ` words ` set corpus)) =
        Max (insert acc (insert (length (words s)) (length ` words ` set corpus)))"
    by (cases "corpus = []") (simp_all add: max.assoc)
  then show ?case
    unfolding foldl_Cons step Cons.IH by simp
qed

lemma longest_target_sentence_length_Max:
  "longest_target_sentence_length corpus = Max (insert 0 (length ` words ` set corpus))"
  unfolding longest_target_sentence_length_def by (rule longest_fold)

lemma longest_ex_corpus: "longest_target_sentence_length ex_corpus = 2"
  by (simp add: longest_target_sentence_length_def ex_corpus_def)


text \<open>
  Claim C5. Starting from the reset tables, as the constructor does: \<open>max_m\<close> is the
  greatest target sentence length of the corpus (0 for an empty corpus). When
  \<open>max_m > 1\<close>, every displacement \<open>dj \<noteq> 0\<close> with \<open>-(max_m - 1) \<le> dj \<le> max_m - 1\<close>, every
  source class and every target class of the two lookups get \<open>1 / (2 * (max_m - 1))\<close> in the
  head table, and every such displacement and target class in the non-head table.
  Displacement 0 is left at the floor, and so is the head table under the key \<open>None\<close>,
  which stands for no previous cept and is no class. When \<open>max_m \<le> 1\<close> the value chosen is
  the floor, and all entries are the floor. A value below the floor adds a warning to the
  result and nothing else: the tables are the same function of the corpus either way.
\<close>

theorem uniform_distortion_initialisation:
  fixes MIN_PROB :: real and corpus :: "aligned_sent list" and M :: model
  defines "max_m \<equiv> longest_target_sentence_length corpus"
  defines "result \<equiv>
    set_uniform_distortion_probabilities MIN_PROB corpus (reset_probabilities MIN_PROB M)"
  shows
    "max_m = Max (insert 0 (length ` words ` set corpus)) \<and>
     (1 < max_m \<longrightarrow>
        (\<forall>dj s_cls t_cls.
           dj \<noteq> 0 \<and> - (int max_m - 1) \<le> dj \<and> dj \<le> int max_m - 1 \<and>
           s_cls \<in> snd ` set (src_classes M) \<and> t_cls \<in> snd ` set (trg_classes M)
             \<longrightarrow> head_distortion_table (snd result) dj (Some s_cls) t_cls
                   = 1 / (2 * (real max_m - 1)) \<and>
                 non_head_distortion_table (snd result) dj t_cls
                   = 1 / (2 * (real max_m - 1)))) \<and>
     (\<forall>s_cls t_cls. head_distortion_table (snd result) 0 s_cls t_cls = MIN_PROB \<and>
                    non_head_distortion_table (snd result) 0 t_cls = MIN_PROB) \<and>
     (\<forall>dj t_cls. head_distortion_table (snd result) dj None t_cls = MIN_PROB) \<and>
     (max_m \<le> 1 \<longrightarrow>
        initial_prob MIN_PROB max_m = MIN_PROB \<and>
        (\<forall>dj s_cls t_cls. head_distortion_table (snd result) dj s_cls t_cls = MIN_PROB \<and>
                          non_head_distortion_table (snd result) dj t_cls = MIN_PROB)) \<and>
     fst result = (if initial_prob MIN_PROB max_m < MIN_PROB then [Too_long max_m] else [])"
proof -
  have classes: "src_classes (reset_probabilities MIN_PROB M) = src_classes M"
    "trg_classes (reset_probabilities MIN_PROB M) = trg_classes M"
    by (simp_all add: reset_probabilities_def IBMModel_reset_probabilities_def)
  have reset: "head_distortion_table (reset_probabilities MIN_PROB M) = (\<lambda>dj s_cls t_cls. MIN_PROB)"
    "non_head_distortion_table (reset_probabilities MIN_PROB M) = (\<lambda>dj t_cls. MIN_PROB)"
    by (simp_all add: reset_probabilities_def)
  have head: "head_distortion_table (snd result) dj sc tc =
     (if dj \<noteq> 0 \<and> - (int max_m - 1) \<le> dj \<and> dj \<le> int max_m - 1 \<and>
         tc \<in> snd ` set (trg_classes M) \<and> sc \<in> Some ` snd ` set (src_classes M)
      then initial_prob MIN_PROB max_m else MIN_PROB)" for dj sc tc
    unfolding result_def max_m_def set_uniform_head classes reset ..
  have non_head: "non_head_distortion_table (snd result) dj tc =
     (if dj \<noteq> 0 \<and> - (int max_m - 1) \<le> dj \<and> dj \<le> int max_m - 1 \<and>
         tc \<in> snd ` set (trg_classes M)
      then initial_prob MIN_PROB max_m else MIN_PROB)" for dj tc
    unfolding result_def max_m_def set_uniform_non_head classes reset ..
  have uniform: "initial_prob MIN_PROB max_m = 1 / (2 * (real max_m - 1))" if "1 < max_m"
    using that by (simp add: initial_prob_def)
  have "max_m = Max (insert 0 (length ` words ` set corpus))"
    unfolding max_m_def by (rule longest_target_sentence_length_Max)
  moreover have "head_distortion_table (snd result) dj (Some s_cls) t_cls
                   = 1 / (2 * (real max_m - 1)) \<and>
                 non_head_distortion_table (snd result) dj t_cls
                   = 1 / (2 * (real max_m - 1))"
    if "1 < max_m" and "dj \<noteq> 0 \<and> - (int max_m - 1) \<le> dj \<and> dj \<le> int max_m - 1 \<and>
           s_cls \<in> snd ` set (src_classes M) \<and> t_cls \<in> snd ` set (trg_classes M)"
    for dj s_cls t_cls
    using that unfolding head non_head by (simp add: uniform)
  moreover have "head_distortion_table (snd result) 0 s_cls t_cls = MIN_PROB \<and>
                 non_head_distortion_table (snd result) 0 t_cls = MIN_PROB" for s_cls t_cls
    unfolding head non_head by simp
  moreover have "head_distortion_table (snd result) dj None t_cls = MIN_PROB" for dj t_cls
    unfolding head by simp
  moreover have "initial_prob MIN_PROB max_m = MIN_PROB \<and>
        (\<forall>dj s_cls t_cls. head_distortion_table (snd result) dj s_cls t_cls = MIN_PROB \<and>
                          non_head_distortion_table (snd result) dj t_cls = MIN_PROB)"
    if "max_m \<le> 1"
    using that unfolding head non_head by (simp add: initial_prob_def)
  moreover have "fst result =
      (if initial_prob MIN_PROB max_m < MIN_PROB then [Too_long max_m] else [])"
    unfolding result_def max_m_def
    by (simp add: set_uniform_distortion_probabilities_def Let_def uniform_warnings_def)
  ultimately show ?thesis
    by blast
qed

text \<open>
  On \<open>ex_corpus\<close> (\<open>max_m = 2\<close>) the entries at displacement 1 and -1 are \<open>1 / 2\<close>; on the
  empty corpus (\<open>max_m = 0\<close>) every entry is the floor.
\<close>

theorem uniform_distortion_initialisation_witness:
  "longest_target_sentence_length ex_corpus = 2 \<and>
   head_distortion_table
     (snd (set_uniform_distortion_probabilities (1 / 10 ^ 12) ex_corpus
             (reset_probabilities (1 / 10 ^ 12) ex_model))) (- 1) (Some 2) 1 = 1 / 2 \<and>
   non_head_distortion_table
     (snd (set_uniform_distortion_probabilities (1 / 10 ^ 12) ex_corpus
             (reset_probabilities (1 / 10 ^ 12) ex_model))) 1 4 = 1 / 2 \<and>
   head_distortion_table
     (snd (set_uniform_distortion_probabilities (1 / 10 ^ 12) []
             (reset_probabilities (1 / 10 ^ 12) ex_model))) 1 (Some 2) 1 = 1 / 10 ^ 12"
proof -
  have classes: "(2 :: int) \<in> snd ` set (src_classes ex_model)"
    "(1 :: int) \<in> snd ` set (trg_classes ex_model)"
    "(4 :: int) \<in> snd ` set (trg_classes ex_model)"
    by (simp_all add: ex_model_def)
  have empty: "longest_target_sentence_length [] = 0"
    by (simp add: longest_target_sentence_length_def)
  note two = uniform_distortion_initialisation [where corpus = ex_corpus and MIN_PROB = "1 / 10 ^ 12"
      and M = ex_model,
      unfolded longest_ex_corpus]
  note none = uniform_distortion_initialisation [where corpus = "[]" and MIN_PROB = "1 / 10 ^ 12"
      and M = ex_model,
      unfolded empty]
  have "head_distortion_table
     (snd (set_uniform_distortion_probabilities (1 / 10 ^ 12) ex_corpus
             (reset_probabilities (1 / 10 ^ 12) ex_model))) (- 1) (Some 2) 1
       = 1 / (2 * (real 2 - 1))"
    using two classes by simp
  moreover have "non_head_distortion_table
     (snd (set_uniform_distortion_probabilities (1 / 10 ^ 12) ex_corpus
             (reset_probabilities (1 / 10 ^ 12) ex_model))) 1 4 = 1 / (2 * (real 2 - 1))"
    using two classes by simp
  moreover have "head_distortion_table
     (snd (set_uniform_distortion_probabilities (1 / 10 ^ 12) []
             (reset_probabilities (1 / 10 ^ 12) ex_model))) 1 (Some 2) 1 = 1 / 10 ^ 12"
    using none by simp
  ultimately show ?thesis
    using longest_ex_corpus by simp
qed

subsection \<open>What the M step keeps\<close>

text \<open>
  A property of the model that every assignment of a floored estimate keeps is kept by
  each of the three table loops of the M step, and so holds of the model that
  \<^verbatim>\<open>maximize_null_generation_probabilities\<close> receives.
\<close>

lemma maximize_lexical_preserves:
  assumes set: "\<And>t s v self. MIN_PROB \<le> v \<Longrightarrow> P self \<Longrightarrow> P (set_translation t s v self)"
    and start: "P self"
    and run: "maximize_lexical_translation_probabilities MIN_PROB counts self = Inr self'"
  shows "P self'"
  using _ start run [unfolded maximize_lexical_translation_probabilities_def]
proof (rule for_each_preserves)
  fix x :: "word \<times> (word option \<times> real) list" and s1 s2
  assume "P s1"
    and outer: "(case x of (t, src_words) \<Rightarrow>
        for_each (\<lambda>s self.
            ebind (py_div (dd_get (dd_get (t_given_s counts) [] t) 0 s)
                     (dd_get (any_t_given_s counts) 0 s)) (\<lambda>estimate.
              Inr (set_translation t s (max estimate MIN_PROB) self)))
          (map fst src_words)) s1 = Inr s2"
  obtain t src_words where x: "x = (t, src_words)"
    by (cases x)
  from outer [unfolded x prod.case] _ \<open>P s1\<close> show "P s2"
    by (rule for_each_preserves [rotated 2]) (auto simp: ebind_Inr intro: set)
qed

lemma maximize_fertility_preserves:
  assumes set: "\<And>phi s v self. MIN_PROB \<le> v \<Longrightarrow> P self \<Longrightarrow> P (set_fertility phi s v self)"
    and start: "P self"
    and run: "maximize_fertility_probabilities MIN_PROB counts self = Inr self'"
  shows "P self'"
  using _ start run [unfolded maximize_fertility_probabilities_def]
proof (rule for_each_preserves)
  fix x :: "nat \<times> (word option \<times> real) list" and s1 s2
  assume "P s1"
    and outer: "(case x of (phi, src_words) \<Rightarrow>
        for_each (\<lambda>s self.
            ebind (py_div (dd_get (dd_get (counts.fertility counts) [] phi) 0 s)
                     (dd_get (fertility_for_any_phi counts) 0 s)) (\<lambda>estimate.
              Inr (set_fertility phi s (max estimate MIN_PROB) self)))
          (map fst src_words)) s1 = Inr s2"
  obtain phi src_words where x: "x = (phi, src_words)"
    by (cases x)
  from outer [unfolded x prod.case] _ \<open>P s1\<close> show "P s2"
    by (rule for_each_preserves [rotated 2]) (auto simp: ebind_Inr intro: set)
qed

lemma maximize_head_preserves:
  assumes set: "\<And>dj s_cls t_cls v self. MIN_PROB \<le> v \<Longrightarrow> P self \<Longrightarrow> P (set_head dj s_cls t_cls v self)"
    and start: "P self"
    and run: "for_each (\<lambda>(dj, source_classes).
          for_each (\<lambda>(s_cls, target_classes).
              for_each (\<lambda>t_cls self.
                  ebind (py_div (dd_get (dd_get (dd_get (head_distortion counts) [] dj) [] s_cls) 0 t_cls)
                           (dd_get (dd_get (head_distortion_for_any_dj counts) [] s_cls) 0 t_cls))
                    (\<lambda>estimate. Inr (set_head dj s_cls t_cls (max estimate MIN_PROB) self)))
                (map fst target_classes))
            source_classes)
         (head_distortion counts) self = Inr self'"
  shows "P self'"
  using _ start run
proof (rule for_each_preserves)
  fix x :: "int \<times> (int option \<times> (int \<times> real) list) list" and s1 s2
  assume "P s1"
    and outer: "(case x of (dj, source_classes) \<Rightarrow>
          for_each (\<lambda>(s_cls, target_classes).
              for_each (\<lambda>t_cls self.
                  ebind (py_div (dd_get (dd_get (dd_get (head_distortion counts) [] dj) [] s_cls) 0 t_cls)
                           (dd_get (dd_get (head_distortion_for_any_dj counts) [] s_cls) 0 t_cls))
                    (\<lambda>estimate. Inr (set_head dj s_cls t_cls (max estimate MIN_PROB) self)))
                (map fst target_classes))
            source_classes) s1 = Inr s2"
  obtain dj source_classes where x: "x = (dj, source_classes)"
    by (cases x)
  from outer [unfolded x prod.case] _ \<open>P s1\<close> show "P s2"
  proof (rule for_each_preserves [rotated 2])
    fix y :: "int option \<times> (int \<times> real) list" and s3 s4
    assume "P s3"
      and middle: "(case y of (s_cls, target_classes) \<Rightarrow>
              for_each (\<lambda>t_cls self.
                  ebind (py_div (dd_get (dd_get (dd_get (head_distortion counts) [] dj) [] s_cls) 0 t_cls)
                           (dd_get (dd_get (head_distortion_for_any_dj counts) [] s_cls) 0 t_cls))
                    (\<lambda>estimate. Inr (set_head dj s_cls t_cls (max estimate MIN_PROB) self)))
                (map fst target_classes)) s3 = Inr s4"
    obtain s_cls target_classes where y: "y = (s_cls, target_classes)"
      by (cases y)
    from middle [unfolded y prod.case] _ \<open>P s3\<close> show "P s4"
      by (rule for_each_preserves [rotated 2]) (auto simp: ebind_Inr intro: set)
  qed
qed

lemma maximize_non_head_preserves:
  assumes set: "\<And>dj t_cls v self. MIN_PROB \<le> v \<Longrightarrow> P self \<Longrightarrow> P (set_non_head dj t_cls v self)"
    and start: "P self"
    and run: "for_each (\<lambda>(dj, target_classes).
          for_each (\<lambda>t_cls self.
              ebind (py_div (dd_get (dd_get (non_head_distortion counts) [] dj) 0 t_cls)
                       (dd_get (non_head_distortion_for_any_dj counts) 0 t_cls))
                (\<lambda>estimate. Inr (set_non_head dj t_cls (max estimate MIN_PROB) self)))
            (map fst target_classes))
         (non_head_distortion counts) self = Inr self'"
  shows "P self'"
  using _ start run
proof (rule for_each_preserves)
  fix x :: "int \<times> (int \<times> real) list" and s1 s2
  assume "P s1"
    and outer: "(case x of (dj, target_classes) \<Rightarrow>
          for_each (\<lambda>t_cls self.
              ebind (py_div (dd_get (dd_get (non_head_distortion counts) [] dj) 0 t_cls)
                       (dd_get (non_head_distortion_for_any_dj counts) 0 t_cls))
                (\<lambda>estimate. Inr (set_non_head dj t_cls (max estimate MIN_PROB) self)))
            (map fst target_classes)) s1 = Inr s2"
  obtain dj target_classes where x: "x = (dj, target_classes)"
    by (cases x)
  from outer [unfolded x prod.case] _ \<open>P s1\<close> show "P s2"
    by (rule for_each_preserves [rotated 2]) (auto simp: ebind_Inr intro: set)
qed

lemma maximize_distortion_preserves:
  assumes "\<And>dj s_cls t_cls v self. MIN_PROB \<le> v \<Longrightarrow> P self \<Longrightarrow> P (set_head dj s_cls t_cls v self)"
    and "\<And>dj t_cls v self. MIN_PROB \<le> v \<Longrightarrow> P self \<Longrightarrow> P (set_non_head dj t_cls v self)"
    and start: "P self"
    and run: "maximize_distortion_probabilities MIN_PROB counts self = Inr self'"
  shows "P self'"
proof -
  from run obtain s1 where
    head: "for_each (\<lambda>(dj, source_classes).
          for_each (\<lambda>(s_cls, target_classes).
              for_each (\<lambda>t_cls self.
                  ebind (py_div (dd_get (dd_get (dd_get (head_distortion counts) [] dj) [] s_cls) 0 t_cls)
                           (dd_get (dd_get (head_distortion_for_any_dj counts) [] s_cls) 0 t_cls))
                    (\<lambda>estimate. Inr (set_head dj s_cls t_cls (max estimate MIN_PROB) self)))
                (map fst target_classes))
            source_classes)
         (head_distortion counts) self = Inr s1"
    and non_head: "for_each (\<lambda>(dj, target_classes).
          for_each (\<lambda>t_cls self.
              ebind (py_div (dd_get (dd_get (non_head_distortion counts) [] dj) 0 t_cls)
                       (dd_get (non_head_distortion_for_any_dj counts) 0 t_cls))
                (\<lambda>estimate. Inr (set_non_head dj t_cls (max estimate MIN_PROB) self)))
            (map fst target_classes))
         (non_head_distortion counts) s1 = Inr self'"
    unfolding maximize_distortion_probabilities_def ebind_Inr by blast
  have "P s1"
    using assms(1) start head by (rule maximize_head_preserves)
  with assms(2) show ?thesis
    using non_head by (rule maximize_non_head_preserves)
qed

lemma m_step_preserves:
  assumes "\<And>t s v self. MIN_PROB \<le> v \<Longrightarrow> P self \<Longrightarrow> P (set_translation t s v self)"
    and "\<And>dj s_cls t_cls v self. MIN_PROB \<le> v \<Longrightarrow> P self \<Longrightarrow> P (set_head dj s_cls t_cls v self)"
    and "\<And>dj t_cls v self. MIN_PROB \<le> v \<Longrightarrow> P self \<Longrightarrow> P (set_non_head dj t_cls v self)"
    and "\<And>phi s v self. MIN_PROB \<le> v \<Longrightarrow> P self \<Longrightarrow> P (set_fertility phi s v self)"
    and start: "P ((reset_probabilities MIN_PROB self)\<lparr>alignment_table := alignment_table self\<rparr>)"
    and run: "m_step MIN_PROB counts self = Inr self'"
  shows "\<exists>s3. P s3 \<and> maximize_null_generation_probabilities MIN_PROB counts s3 = Inr self'"
proof -
  from run obtain s1 s2 s3 where
    lexical: "maximize_lexical_translation_probabilities MIN_PROB counts
        ((reset_probabilities MIN_PROB self)\<lparr>alignment_table := alignment_table self\<rparr>) = Inr s1"
    and distortion: "maximize_distortion_probabilities MIN_PROB counts s1 = Inr s2"
    and fertility: "maximize_fertility_probabilities MIN_PROB counts s2 = Inr s3"
    and null: "maximize_null_generation_probabilities MIN_PROB counts s3 = Inr self'"
    unfolding m_step_def Let_def ebind_Inr by blast
  have "P s1"
    using assms(1) start lexical by (rule maximize_lexical_preserves)
  with assms(2,3) have "P s2"
    using distortion by (rule maximize_distortion_preserves)
  with assms(4) have "P s3"
    using fertility by (rule maximize_fertility_preserves)
  with null show ?thesis
    by blast
qed

text \<open>The example corpus, trained for one step.\<close>

lemma e_step_ex:
  "for_each (train_sentence (1 / 10 ^ 12) ex_sample ex_model) ex_corpus Counts = Inr ex_counts"
  by (simp add: train_sentence_def ex_corpus_def ex_sample_def ex_model_def
      prob_of_alignments_def prob_t_a_given_s_def null_generation_term_def fertility_term_def
      lexical_translation_term_def distortion_term_def train_candidate_def
      update_lexical_translation_def update_distortion_def update_null_generation_def
      update_fertility_def add1_def add2_def add3_def dd_get_def Counts_def ex_counts_def
      ex_simps)

lemma m_step_ex: "\<exists>M'. m_step (1 / 10 ^ 12) ex_counts ex_model = Inr M'"
  by (simp add: m_step_def Let_def ebind_def reset_probabilities_def
      IBMModel_reset_probabilities_def maximize_lexical_translation_probabilities_def
      maximize_distortion_probabilities_def maximize_fertility_probabilities_def
      maximize_null_generation_probabilities_def py_div_def dd_get_def ex_counts_def)

lemma train_ex: "\<exists>M'. train (1 / 10 ^ 12) ex_sample ex_corpus ex_model = Inr M'"
  unfolding train_def e_step_ex using m_step_ex by (simp add: ebind_def)

text \<open>
  Claim C7. A call of \<^verbatim>\<open>train\<close> that returns leaves the alignment table as it was. The
  other four tables are replaced: what the M step computes does not depend on their
  former contents.
\<close>

theorem train_keeps_alignment_table:
  "(train MIN_PROB sample parallel_corpus M = Inr M' \<longrightarrow>
      alignment_table M' = alignment_table M) \<and>
   m_step MIN_PROB counts
     (M\<lparr>translation_table := tt, fertility_table := ft, head_distortion_table := hdt,
        non_head_distortion_table := nht\<rparr>) = m_step MIN_PROB counts M"
proof -
  have "alignment_table M' = alignment_table M"
    if "train MIN_PROB sample parallel_corpus M = Inr M'"
  proof -
    from that obtain c where run: "m_step MIN_PROB c M = Inr M'"
      unfolding train_def ebind_Inr by blast
    have "\<exists>s3. alignment_table s3 = alignment_table M \<and>
        maximize_null_generation_probabilities MIN_PROB c s3 = Inr M'"
      using _ _ _ _ _ run
      by (rule m_step_preserves [where P = "\<lambda>s. alignment_table s = alignment_table M"])
        (simp_all add: set_translation_def set_head_def set_non_head_def set_fertility_def)
    then show ?thesis
      by (auto simp: maximize_null_generation_probabilities_def ebind_Inr Let_def)
  qed
  moreover have "m_step MIN_PROB counts
     (M\<lparr>translation_table := tt, fertility_table := ft, head_distortion_table := hdt,
        non_head_distortion_table := nht\<rparr>) = m_step MIN_PROB counts M"
    by (simp add: m_step_def reset_probabilities_def IBMModel_reset_probabilities_def)
  ultimately show ?thesis
    by blast
qed

text \<open>One training step on \<open>ex_corpus\<close> from \<open>ex_model\<close>.\<close>

theorem train_keeps_alignment_table_witness:
  "(case train (1 / 10 ^ 12) ex_sample ex_corpus ex_model of
      Inl e \<Rightarrow> False
    | Inr M' \<Rightarrow> alignment_table M' = alignment_table ex_model)"
proof -
  obtain M' where run: "train (1 / 10 ^ 12) ex_sample ex_corpus ex_model = Inr M'"
    using train_ex by blast
  have "alignment_table M' = alignment_table ex_model"
    using train_keeps_alignment_table [of "1 / 10 ^ 12" ex_sample ex_corpus ex_model M'] run
    by blast
  then show ?thesis
    unfolding run by simp
qed

subsection \<open>The floor invariant\<close>







subsection \<open>Which factors attenuate the running product\<close>


















end
